theory Spec2Isabelle
  imports Main
begin

section \<open>Python values used by \<^verbatim>\<open>Inicio.py\<close>\<close>

text \<open>
  A Python \<^verbatim>\<open>str\<close> is a sequence of Unicode code points, so it is modelled as a
  list of naturals. \<open>lit\<close> embeds an ASCII literal; the non-ASCII characters of the
  source's literals are given by their code points.
\<close>

type_synonym pystr = "nat list"

definition lit :: "string \<Rightarrow> pystr" where
  "lit s = map of_char s"

definition em_dash :: nat where
  "em_dash = 8212"

datatype exn =
    ConnectionError
  | HTTPError nat
  | JSONDecodeError
  | KeyError pystr
  | TypeError
  | ValueError
  | UnicodeEncodeError
  | ServiceError nat

text \<open>\<^verbatim>\<open>dict.get\<close> on a decoded JSON object distinguishes a missing key, a key
  holding \<^verbatim>\<open>null\<close> and a key holding a value.\<close>

datatype 'a field = Missing | Null | Val 'a

record date =
  year :: nat
  month :: nat
  day :: nat

record datetime =
  dt_date :: date
  hour :: nat
  minute :: nat
  second :: nat
  microsecond :: nat

text \<open>\<^verbatim>\<open>date.__gt__\<close> compares (year, month, day) lexicographically.\<close>

definition date_gt :: "date \<Rightarrow> date \<Rightarrow> bool" where
  "date_gt a b =
     (year a > year b \<or> (year a = year b \<and>
        (month a > month b \<or> (month a = month b \<and> day a > day b))))"

text \<open>\<^verbatim>\<open>time(h, m)\<close> leaves seconds and microseconds at 0;
  \<^verbatim>\<open>datetime.combine(d, t)\<close> pairs a date with a time of day.\<close>

definition combine :: "date \<Rightarrow> nat \<times> nat \<Rightarrow> datetime" where
  "combine d t = \<lparr>dt_date = d, hour = fst t, minute = snd t, second = 0, microsecond = 0\<rparr>"

text \<open>
  \<^verbatim>\<open>st.date_input\<close> hands the script either one \<^verbatim>\<open>date\<close> or a tuple of dates;
  \<^verbatim>\<open>start_d\<close> and \<^verbatim>\<open>end_d\<close> hold whichever of the two the normalisation assigns.
\<close>

datatype dateval = D date | T "date list"

fun tuple_gt :: "date list \<Rightarrow> date list \<Rightarrow> bool" where
  "tuple_gt [] ys = False"
| "tuple_gt (x # xs) [] = True"
| "tuple_gt (x # xs) (y # ys) = (if x = y then tuple_gt xs ys else date_gt x y)"

fun py_gt :: "dateval \<Rightarrow> dateval \<Rightarrow> exn + bool" where
  "py_gt (D a) (D b) = Inr (date_gt a b)"
| "py_gt (T xs) (T ys) = Inr (tuple_gt xs ys)"
| "py_gt (D a) (T ys) = Inl TypeError"
| "py_gt (T xs) (D b) = Inl TypeError"

subsection \<open>String helpers\<close>

text \<open>The code points \<^verbatim>\<open>str.strip()\<close> removes (those with \<^verbatim>\<open>str.isspace()\<close>).\<close>

definition is_space :: "nat \<Rightarrow> bool" where
  "is_space c = ((9 \<le> c \<and> c \<le> 13) \<or> (28 \<le> c \<and> c \<le> 32) \<or> c = 133 \<or> c = 160
      \<or> c = 5760 \<or> (8192 \<le> c \<and> c \<le> 8202) \<or> c = 8232 \<or> c = 8233 \<or> c = 8239
      \<or> c = 8287 \<or> c = 12288)"

definition strip_with :: "(nat \<Rightarrow> bool) \<Rightarrow> pystr \<Rightarrow> pystr" where
  "strip_with P s = rev (dropWhile P (rev (dropWhile P s)))"

definition strip :: "pystr \<Rightarrow> pystr" where
  "strip s = strip_with is_space s"

text \<open>\<^verbatim>\<open>s.split(sep)[0]\<close> for a one-character separator: everything before its first
  occurrence, the whole string when it does not occur.\<close>

definition split_first :: "nat \<Rightarrow> pystr \<Rightarrow> pystr" where
  "split_first sep s = takeWhile (\<lambda>c. c \<noteq> sep) s"

definition startswith :: "pystr \<Rightarrow> pystr \<Rightarrow> bool" where
  "startswith s p = (take (length p) s = p)"

text \<open>\<^verbatim>\<open>s.replace(" ", "_")\<close>.\<close>

definition replace_space :: "pystr \<Rightarrow> pystr" where
  "replace_space s = map (\<lambda>c. if c = 32 then 95 else c) s"

fun join :: "pystr \<Rightarrow> pystr list \<Rightarrow> pystr" where
  "join sep [] = []"
| "join sep [x] = x"
| "join sep (x # y # ys) = x @ sep @ join sep (y # ys)"

function str_nat :: "nat \<Rightarrow> pystr" where
  "str_nat n = (if n < 10 then [48 + n] else str_nat (n div 10) @ [48 + n mod 10])"
  by pat_completeness auto
termination
  by (relation "measure id") auto

declare str_nat.simps [simp del]


definition str_int :: "int \<Rightarrow> pystr" where
  "str_int i = (if i < 0 then 45 # str_nat (nat (- i)) else str_nat (nat i))"

definition zfill :: "nat \<Rightarrow> pystr \<Rightarrow> pystr" where
  "zfill w s = replicate (w - length s) 48 @ s"

text \<open>\<^verbatim>\<open>str(date)\<close> is the ISO form; \<^verbatim>\<open>repr(date)\<close> is what a tuple shows of its
  elements.\<close>

definition str_date :: "date \<Rightarrow> pystr" where
  "str_date d = zfill 4 (str_nat (year d)) @ lit ''-'' @ zfill 2 (str_nat (month d))
       @ lit ''-'' @ zfill 2 (str_nat (day d))"

definition repr_date :: "date \<Rightarrow> pystr" where
  "repr_date d = lit ''datetime.date('' @ str_nat (year d) @ lit '', '' @ str_nat (month d)
       @ lit '', '' @ str_nat (day d) @ lit '')''"

definition str_dateval :: "dateval \<Rightarrow> pystr" where
  "str_dateval v = (case v of
       D d \<Rightarrow> str_date d
     | T ds \<Rightarrow> lit ''('' @ join (lit '', '') (map repr_date ds)
                @ (if length ds = 1 then lit '','' else []) @ lit '')'')"

section \<open>Data model\<close>

text \<open>
  A geocoding candidate is a decoded JSON object; the script reads the keys below. The
  number type \<open>'f\<close> of coordinates (Python's \<^verbatim>\<open>float\<close>) is left open: the script
  only passes these numbers on and prints them.
\<close>

record 'f place =
  pl_name :: "pystr field"
  pl_country :: "pystr field"
  pl_admin1 :: "pystr field"
  pl_admin2 :: "pystr field"
  pl_latitude :: "'f field"
  pl_longitude :: "'f field"
  pl_elevation :: "'f field"
  pl_timezone :: "pystr field"

text \<open>
  A row of the station table after \<^verbatim>\<open>reset_index()\<close>. The columns \<^verbatim>\<open>name\<close> and
  \<^verbatim>\<open>distance\<close> may be absent (\<open>None\<close>); the distance is kept as the integer
  \<^verbatim>\<open>int(...)\<close> makes of it.
\<close>

record station =
  st_id :: pystr
  st_name :: "pystr option"
  st_distance :: "int option"

text \<open>
  An observation table: the index is named \<^verbatim>\<open>time\<close> (the source's comments at
  \<^verbatim>\<open>reset_index()\<close> say so), every column has a name and a flag for
  \<^verbatim>\<open>is_numeric_dtype\<close>, every row has its time stamp and its cells.
\<close>

record ('t, 'v) dataframe =
  columns :: "(pystr \<times> bool) list"
  rows :: "('t \<times> 'v list) list"

datatype ('t, 'v) cell = TimeCell 't | ValCell 'v

record ('t, 'v) table =
  tcolumns :: "(pystr \<times> bool) list"
  trows :: "('t, 'v) cell list list"

definition time_col :: pystr where
  "time_col = lit ''time''"

text \<open>\<^verbatim>\<open>df.empty\<close>: some axis has length 0.\<close>

definition df_empty :: "('t, 'v) dataframe \<Rightarrow> bool" where
  "df_empty df = (rows df = [] \<or> columns df = [])"

definition head :: "nat \<Rightarrow> ('t, 'v) dataframe \<Rightarrow> ('t, 'v) dataframe" where
  "head n df = df\<lparr>rows := take n (rows df)\<rparr>"

text \<open>\<^verbatim>\<open>df.reset_index()\<close> inserts the index as first column, and raises
  \<^verbatim>\<open>ValueError\<close> when a column of that name exists already.\<close>

definition reset_index :: "('t, 'v) dataframe \<Rightarrow> exn + ('t, 'v) table" where
  "reset_index df =
     (if time_col \<in> set (map fst (columns df)) then Inl ValueError
      else Inr \<lparr>tcolumns = (time_col, False) # columns df,
                trows = map (\<lambda>(t, vs). TimeCell t # map ValCell vs) (rows df)\<rparr>)"

section \<open>External services\<close>

record geo_params =
  q_name :: pystr
  q_count :: int
  q_format :: pystr
  q_language :: pystr

record 'f response =
  status_code :: nat
  json :: "exn + 'f place list field"

text \<open>
  What lies outside the program: the HTTP endpoint behind \<^verbatim>\<open>requests.get\<close> and the
  Meteostat library (\<^verbatim>\<open>stations.nearby\<close>, \<^verbatim>\<open>daily(...).fetch()\<close>,
  \<^verbatim>\<open>hourly(...).fetch()\<close>, \<^verbatim>\<open>stations.inventory\<close>). Each either raises or returns.
\<close>

record ('f, 't, 'v) world =
  http_get :: "pystr \<Rightarrow> geo_params \<Rightarrow> nat \<Rightarrow> exn + 'f response"
  stations_nearby :: "'f \<Rightarrow> 'f \<Rightarrow> 'f \<Rightarrow> nat \<Rightarrow> exn + station list"
  daily :: "pystr \<Rightarrow> dateval \<Rightarrow> dateval \<Rightarrow> exn + ('t, 'v) dataframe"
  hourly :: "pystr \<Rightarrow> datetime \<Rightarrow> datetime \<Rightarrow> exn + ('t, 'v) dataframe"
  inventory :: "pystr \<Rightarrow> exn + pystr \<times> pystr"

text \<open>The log of calls that left the program.\<close>

datatype 'f ext_call =
    HttpGet pystr geo_params nat
  | Nearby 'f 'f 'f nat
  | Daily pystr dateval dateval
  | Hourly pystr datetime datetime
  | Inventory pystr

text \<open>How Python and pandas print the open value types.\<close>

record ('f, 't, 'v) formats =
  str_f :: "'f \<Rightarrow> pystr"
  str_t :: "'t \<Rightarrow> pystr"
  str_v :: "'v \<Rightarrow> pystr"

section \<open>The cached fetch operations\<close>

type_synonym ('k, 'v) ttl_cache = "'k \<rightharpoonup> nat \<times> 'v"

text \<open>
  Modelled from the spec: the decorator \<^verbatim>\<open>st.cache_data(ttl=...)\<close> is Streamlit's and
  not part of the repository. Following sections 4.4 and 9 of the specification it is a
  map from the argument tuple to the stored result with the time it was stored: a hit
  (an entry younger than \<open>ttl\<close> seconds) returns the stored result without running the
  function; a miss runs the function and, when it returns, stores the result under the
  arguments, over any expired entry. A function that raises stores nothing.
\<close>

definition cache_data ::
  "nat \<Rightarrow> ('k \<Rightarrow> 'c list \<Rightarrow> (exn + 'r) \<times> 'c list) \<Rightarrow> nat \<Rightarrow> 'k
     \<Rightarrow> ('k, 'r) ttl_cache \<times> 'c list \<Rightarrow> (exn + 'r) \<times> ('k, 'r) ttl_cache \<times> 'c list" where
  "cache_data ttl f now k st =
     (let (c, log) = st;
          miss = (case f k log of
                    (Inl e, log') \<Rightarrow> (Inl e, c, log')
                  | (Inr v, log') \<Rightarrow> (Inr v, c(k \<mapsto> (now, v)), log'))
      in case c k of
           None \<Rightarrow> miss
         | Some (t, v) \<Rightarrow> if now < t + ttl then (Inr v, c, log) else miss)"

text \<open>\<^verbatim>\<open>Response.raise_for_status()\<close> raises for the 4xx and 5xx status codes.\<close>

definition raise_for_status :: "'f response \<Rightarrow> exn + unit" where
  "raise_for_status r =
     (if 400 \<le> status_code r \<and> status_code r < 600 then Inl (HTTPError (status_code r))
      else Inr ())"

text \<open>\<^verbatim>\<open>data.get("results", []) or []\<close>.\<close>

definition results_or_empty :: "'a list field \<Rightarrow> 'a list" where
  "results_or_empty f = (case f of Missing \<Rightarrow> [] | Null \<Rightarrow> [] | Val xs \<Rightarrow> xs)"

definition geocoding_url :: pystr where
  "geocoding_url = lit ''https://geocoding-api.open-meteo.com/v1/search''"

definition geocode_city_country ::
  "('f, 't, 'v) world \<Rightarrow> pystr \<times> pystr \<times> int \<times> pystr \<Rightarrow> 'f ext_call list
     \<Rightarrow> (exn + 'f place list) \<times> 'f ext_call list" where
  "geocode_city_country w args log =
     (let (city, country, max_results, language) = args;
          url = geocoding_url;
          query = strip_with (\<lambda>c. c = 44) (strip (city @ lit '', '' @ country));
          params = \<lparr>q_name = query, q_count = max_results, q_format = lit ''json'',
                    q_language = language\<rparr>;
          log' = log @ [HttpGet url params 30]
      in case http_get w url params 30 of
           Inl e \<Rightarrow> (Inl e, log')
         | Inr r \<Rightarrow>
             (case raise_for_status r of
                Inl e \<Rightarrow> (Inl e, log')
              | Inr _ \<Rightarrow>
                  (case json r of
                     Inl e \<Rightarrow> (Inl e, log')
                   | Inr data \<Rightarrow> (Inr (results_or_empty data), log'))))"

definition nearby_stations ::
  "('f, 't, 'v) world \<Rightarrow> 'f \<times> 'f \<times> 'f \<Rightarrow> 'f ext_call list
     \<Rightarrow> (exn + station list) \<times> 'f ext_call list" where
  "nearby_stations w args log =
     (let (lat, lon, elev) = args
      in (stations_nearby w lat lon elev 10, log @ [Nearby lat lon elev 10]))"

definition fetch_daily ::
  "('f, 't, 'v) world \<Rightarrow> pystr \<times> dateval \<times> dateval \<Rightarrow> 'f ext_call list
     \<Rightarrow> (exn + ('t, 'v) dataframe) \<times> 'f ext_call list" where
  "fetch_daily w args log =
     (let (station_id, start_d, end_d) = args
      in (daily w station_id start_d end_d, log @ [Daily station_id start_d end_d]))"

text \<open>\<^verbatim>\<open>datetime.combine\<close> raises \<^verbatim>\<open>TypeError\<close> on anything but a date.\<close>

definition fetch_hourly ::
  "('f, 't, 'v) world \<Rightarrow> pystr \<times> dateval \<times> dateval \<Rightarrow> 'f ext_call list
     \<Rightarrow> (exn + ('t, 'v) dataframe) \<times> 'f ext_call list" where
  "fetch_hourly w args log =
     (let (station_id, start_d, end_d) = args
      in case start_d of
           T _ \<Rightarrow> (Inl TypeError, log)
         | D d1 \<Rightarrow>
             (case end_d of
                T _ \<Rightarrow> (Inl TypeError, log)
              | D d2 \<Rightarrow>
                  (let start_dt = combine d1 (0, 0);
                       end_dt = combine d2 (23, 59)
                   in (hourly w station_id start_dt end_dt,
                       log @ [Hourly station_id start_dt end_dt]))))"

text \<open>The four \<open>ttl\<close> arguments of the source, in seconds.\<close>

definition geocode_ttl :: nat where "geocode_ttl = 60 * 60"
definition stations_ttl :: nat where "stations_ttl = 60 * 60"
definition daily_ttl :: nat where "daily_ttl = 60 * 30"
definition hourly_ttl :: nat where "hourly_ttl = 60 * 30"

section \<open>Export\<close>

text \<open>
  \<^verbatim>\<open>DataFrame.to_csv(buf, index=False)\<close> with pandas' defaults: a header line with the
  column names, then a line for every row, the fields separated by a comma, every line
  ended by a newline. A field holding a comma, a double quote, a carriage return or a
  newline is enclosed in double quotes with its quotes doubled; a line whose only field is
  empty is written as two quotes.
\<close>

definition needs_quote :: "pystr \<Rightarrow> bool" where
  "needs_quote f = list_ex (\<lambda>c. c = 44 \<or> c = 34 \<or> c = 10 \<or> c = 13) f"

definition csv_quote :: "pystr \<Rightarrow> pystr" where
  "csv_quote f =
     (if needs_quote f
      then 34 # concat (map (\<lambda>c. if c = 34 then [34, 34] else [c]) f) @ [34]
      else f)"

definition csv_line :: "pystr list \<Rightarrow> pystr" where
  "csv_line fs = (if fs = [[]] then [34, 34] else join [44] (map csv_quote fs)) @ [10]"

definition str_cell :: "('f, 't, 'v) formats \<Rightarrow> ('t, 'v) cell \<Rightarrow> pystr" where
  "str_cell fm c = (case c of TimeCell t \<Rightarrow> str_t fm t | ValCell v \<Rightarrow> str_v fm v)"

text \<open>The records \<^verbatim>\<open>to_csv\<close> writes: the header, then the rows.\<close>

definition csv_records :: "('f, 't, 'v) formats \<Rightarrow> ('t, 'v) table \<Rightarrow> pystr list list" where
  "csv_records fm t = map fst (tcolumns t) # map (map (str_cell fm)) (trows t)"

definition to_csv :: "('f, 't, 'v) formats \<Rightarrow> ('t, 'v) table \<Rightarrow> pystr" where
  "to_csv fm t = concat (map csv_line (csv_records fm t))"

text \<open>\<^verbatim>\<open>str.encode("utf-8")\<close>: one to four bytes for a code point; a surrogate cannot be
  encoded.\<close>

definition utf8_char :: "nat \<Rightarrow> exn + nat list" where
  "utf8_char c =
     (if c < 128 then Inr [c]
      else if c < 2048 then Inr [192 + c div 64, 128 + c mod 64]
      else if 55296 \<le> c \<and> c < 57344 then Inl UnicodeEncodeError
      else if c < 65536 then Inr [224 + c div 4096, 128 + (c div 64) mod 64, 128 + c mod 64]
      else if c < 1114112
        then Inr [240 + c div 262144, 128 + (c div 4096) mod 64, 128 + (c div 64) mod 64,
                  128 + c mod 64]
      else Inl UnicodeEncodeError)"

fun encode_utf8 :: "pystr \<Rightarrow> exn + nat list" where
  "encode_utf8 [] = Inr []"
| "encode_utf8 (c # cs) =
     (case utf8_char c of
        Inl e \<Rightarrow> Inl e
      | Inr bs \<Rightarrow> (case encode_utf8 cs of Inl e \<Rightarrow> Inl e | Inr rest \<Rightarrow> Inr (bs @ rest)))"

definition df_to_csv_bytes ::
  "('f, 't, 'v) formats \<Rightarrow> ('t, 'v) dataframe \<Rightarrow> exn + nat list" where
  "df_to_csv_bytes fm df =
     (case reset_index df of
        Inl e \<Rightarrow> Inl e
      | Inr df_reset \<Rightarrow> encode_utf8 (to_csv fm df_reset))"

section \<open>The page\<close>

text \<open>
  What the page shows, in order. The messages stand for the Portuguese texts of the
  source. Headers, captions, spinners and expander frames are not recorded.
\<close>

datatype message =
    DateOrder
  | GeocodeFailed pystr pystr exn
  | NoLocation
  | StationsFailed exn
  | NoStation
  | SeriesFailed exn
  | EmptySeries
  | SelectVariable

datatype ('f, 't, 'v) ui_event =
    Error message
  | Warning message
  | Info message
  | Selectbox "pystr list" nat
  | Json "'f place" 'f 'f 'f
  | Write pystr pystr
  | InventoryShown pystr pystr
  | Dataframe "('t, 'v) dataframe"
  | Multiselect "pystr list" "pystr list"
  | LineChart pystr "pystr list"
  | BarChart pystr pystr
  | DownloadButton "nat list" pystr pystr

text \<open>How a run ends: \<^verbatim>\<open>st.stop()\<close>, an exception nobody catches, or the last line.\<close>

datatype outcome = Stopped | Crashed exn | Finished

text \<open>
  The widget values of one run. A choice of \<open>None\<close> is a widget the user has not touched,
  which returns the default the source gives it.
\<close>

record inputs =
  country :: pystr
  city :: pystr
  period :: dateval
  granularity_choice :: "nat option"
  place_choice :: "nat option"
  station_choice :: "nat option"
  cols_choice :: "pystr list option"

record ('f, 't, 'v) state =
  geo_cache :: "(pystr \<times> pystr \<times> int \<times> pystr, 'f place list) ttl_cache"
  stations_cache :: "('f \<times> 'f \<times> 'f, station list) ttl_cache"
  daily_cache :: "(pystr \<times> dateval \<times> dateval, ('t, 'v) dataframe) ttl_cache"
  hourly_cache :: "(pystr \<times> dateval \<times> dateval, ('t, 'v) dataframe) ttl_cache"
  calls :: "'f ext_call list"
  ui :: "('f, 't, 'v) ui_event list"

definition emit :: "('f, 't, 'v) ui_event \<Rightarrow> ('f, 't, 'v) state \<Rightarrow> ('f, 't, 'v) state" where
  "emit e s = s\<lparr>ui := ui s @ [e]\<rparr>"

text \<open>\<^verbatim>\<open>st.selectbox\<close> and \<^verbatim>\<open>st.radio\<close> return the option at the chosen position, the
  one at \<open>index\<close> while untouched, and \<^verbatim>\<open>None\<close> when there are no options.\<close>

definition selectbox :: "'a list \<Rightarrow> nat \<Rightarrow> nat option \<Rightarrow> 'a option" where
  "selectbox options index choice =
     (let i = (case choice of None \<Rightarrow> index | Some k \<Rightarrow> if k < length options then k else index)
      in if i < length options then Some (options ! i) else None)"

text \<open>\<^verbatim>\<open>st.multiselect\<close> returns the chosen ones of its options, the default while
  untouched.\<close>

definition multiselect :: "pystr list \<Rightarrow> pystr list \<Rightarrow> pystr list option \<Rightarrow> pystr list" where
  "multiselect options dflt choice =
     (case choice of None \<Rightarrow> dflt | Some cs \<Rightarrow> filter (\<lambda>c. c \<in> set options) cs)"

text \<open>\<^verbatim>\<open>xs.index(x)\<close>.\<close>

fun index_of :: "'a list \<Rightarrow> 'a \<Rightarrow> nat option" where
  "index_of [] x = None"
| "index_of (y # ys) x = (if y = x then Some 0 else map_option Suc (index_of ys x))"

subsection \<open>The cached operations on the state\<close>

definition geocode_cached ::
  "('f, 't, 'v) world \<Rightarrow> nat \<Rightarrow> pystr \<times> pystr \<times> int \<times> pystr \<Rightarrow> ('f, 't, 'v) state
     \<Rightarrow> (exn + 'f place list) \<times> ('f, 't, 'v) state" where
  "geocode_cached w now args s =
     (let (r, c, log) = cache_data geocode_ttl (geocode_city_country w) now args
                          (geo_cache s, calls s)
      in (r, s\<lparr>geo_cache := c, calls := log\<rparr>))"

definition nearby_cached ::
  "('f, 't, 'v) world \<Rightarrow> nat \<Rightarrow> 'f \<times> 'f \<times> 'f \<Rightarrow> ('f, 't, 'v) state
     \<Rightarrow> (exn + station list) \<times> ('f, 't, 'v) state" where
  "nearby_cached w now args s =
     (let (r, c, log) = cache_data stations_ttl (nearby_stations w) now args
                          (stations_cache s, calls s)
      in (r, s\<lparr>stations_cache := c, calls := log\<rparr>))"

definition daily_cached ::
  "('f, 't, 'v) world \<Rightarrow> nat \<Rightarrow> pystr \<times> dateval \<times> dateval \<Rightarrow> ('f, 't, 'v) state
     \<Rightarrow> (exn + ('t, 'v) dataframe) \<times> ('f, 't, 'v) state" where
  "daily_cached w now args s =
     (let (r, c, log) = cache_data daily_ttl (fetch_daily w) now args (daily_cache s, calls s)
      in (r, s\<lparr>daily_cache := c, calls := log\<rparr>))"

definition hourly_cached ::
  "('f, 't, 'v) world \<Rightarrow> nat \<Rightarrow> pystr \<times> dateval \<times> dateval \<Rightarrow> ('f, 't, 'v) state
     \<Rightarrow> (exn + ('t, 'v) dataframe) \<times> ('f, 't, 'v) state" where
  "hourly_cached w now args s =
     (let (r, c, log) = cache_data hourly_ttl (fetch_hourly w) now args
                          (hourly_cache s, calls s)
      in (r, s\<lparr>hourly_cache := c, calls := log\<rparr>))"

subsection \<open>Rendering and download (lines 188 to 219)\<close>

definition preferred_cols :: "pystr list" where
  "preferred_cols = [lit ''temp'', lit ''tmin'', lit ''tmax'', lit ''prcp'', lit ''wspd'',
                     lit ''pres'', lit ''rhum'']"

definition numeric_cols :: "('t, 'v) table \<Rightarrow> pystr list" where
  "numeric_cols df_plot =
     map fst (filter (\<lambda>(c, numeric). c \<noteq> time_col \<and> numeric) (tcolumns df_plot))"

definition default_cols :: "pystr list \<Rightarrow> pystr list" where
  "default_cols ncols = filter (\<lambda>c. c \<in> set ncols) preferred_cols"

text \<open>The \<open>default\<close> argument of the multiselect: \<^verbatim>\<open>default_cols or numeric_cols[:2]\<close>.\<close>

definition default_selection :: "pystr list \<Rightarrow> pystr list" where
  "default_selection ncols =
     (if default_cols ncols \<noteq> [] then default_cols ncols else take 2 ncols)"

definition file_name :: "pystr \<Rightarrow> pystr \<Rightarrow> pystr \<Rightarrow> dateval \<Rightarrow> dateval \<Rightarrow> pystr" where
  "file_name ctry cty station_id start_d end_d =
     replace_space (lit ''meteostat_'' @ ctry @ lit ''_'' @ cty @ lit ''_'' @ station_id
        @ lit ''_'' @ str_dateval start_d @ lit ''_'' @ str_dateval end_d @ lit ''.csv'')"

definition charts ::
  "pystr list \<Rightarrow> ('f, 't, 'v) state \<Rightarrow> ('f, 't, 'v) state" where
  "charts selected_cols s =
     (if selected_cols \<noteq> []
      then (let s1 = emit (LineChart time_col selected_cols) s
            in if lit ''prcp'' \<in> set selected_cols
               then emit (BarChart time_col (lit ''prcp'')) s1
               else s1)
      else emit (Info SelectVariable) s)"

definition render ::
  "('f, 't, 'v) formats \<Rightarrow> inputs \<Rightarrow> pystr \<Rightarrow> dateval \<Rightarrow> dateval \<Rightarrow> ('t, 'v) dataframe
     \<Rightarrow> ('f, 't, 'v) state \<Rightarrow> outcome \<times> ('f, 't, 'v) state" where
  "render fm inp station_id start_d end_d df s =
     (let s1 = emit (Dataframe (head 50 df)) s
      in case reset_index df of
           Inl e \<Rightarrow> (Crashed e, s1)
         | Inr df_plot \<Rightarrow>
             (let ncols = numeric_cols df_plot;
                  selected_cols = multiselect ncols (default_selection ncols) (cols_choice inp);
                  s2 = emit (Multiselect ncols (default_selection ncols)) s1;
                  s3 = charts selected_cols s2
              in case df_to_csv_bytes fm df of
                   Inl e \<Rightarrow> (Crashed e, s3)
                 | Inr data \<Rightarrow>
                     (Finished,
                      emit (DownloadButton data
                              (file_name (country inp) (city inp) station_id start_d end_d)
                              (lit ''text/csv'')) s3)))"

subsection \<open>Fetching the series (lines 174 to 186)\<close>

definition granularity_options :: "pystr list" where
  "granularity_options =
     [lit ''Di'' @ [225] @ lit ''rio (recomendado)'', lit ''Hor'' @ [225] @ lit ''rio'']"

definition fetch_series ::
  "('f, 't, 'v) world \<Rightarrow> ('f, 't, 'v) formats \<Rightarrow> inputs \<Rightarrow> nat \<Rightarrow> pystr \<Rightarrow> dateval \<Rightarrow> dateval
     \<Rightarrow> ('f, 't, 'v) state \<Rightarrow> outcome \<times> ('f, 't, 'v) state" where
  "fetch_series w fm inp now station_id start_d end_d s =
     (case selectbox granularity_options 0 (granularity_choice inp) of
        None \<Rightarrow> (Crashed TypeError, s)
      | Some granularity \<Rightarrow>
          (let (r, s1) =
                 (if startswith granularity (lit ''Di'' @ [225] @ lit ''rio'')
                  then daily_cached w now (station_id, start_d, end_d) s
                  else hourly_cached w now (station_id, start_d, end_d) s)
           in case r of
                Inl e \<Rightarrow> (Stopped, emit (Error (SeriesFailed e)) s1)
              | Inr df \<Rightarrow>
                  if df_empty df then (Stopped, emit (Warning EmptySeries) s1)
                  else render fm inp station_id start_d end_d df s1))"

subsection \<open>Choosing the station (lines 136 to 169)\<close>

definition station_label :: "station \<Rightarrow> pystr" where
  "station_label r =
     st_id r @ lit '' '' @ [em_dash] @ lit '' ''
       @ (case st_name r of None \<Rightarrow> lit ''(sem nome)'' | Some n \<Rightarrow> n)
       @ lit '' (dist'' @ [226] @ lit ''ncia: ''
       @ str_int (case st_distance r of None \<Rightarrow> 0 | Some d \<Rightarrow> d) @ lit '' m)''"

text \<open>Lines 161 to 169 and on: the station is shown, its inventory is read (outside any
  \<^verbatim>\<open>try\<close>), and the series is fetched.\<close>

definition use_station ::
  "('f, 't, 'v) world \<Rightarrow> ('f, 't, 'v) formats \<Rightarrow> inputs \<Rightarrow> nat \<Rightarrow> dateval \<Rightarrow> dateval
     \<Rightarrow> pystr \<Rightarrow> pystr \<Rightarrow> ('f, 't, 'v) state \<Rightarrow> outcome \<times> ('f, 't, 'v) state" where
  "use_station w fm inp now start_d end_d station_id default_station_name s =
     (let s1 = emit (Write station_id default_station_name) s;
          s2 = s1\<lparr>calls := calls s1 @ [Inventory station_id]\<rparr>
      in case inventory w station_id of
           Inl e \<Rightarrow> (Crashed e, s2)
         | Inr span \<Rightarrow>
             fetch_series w fm inp now station_id start_d end_d
               (emit (InventoryShown (fst span) (snd span)) s2))"

definition choose_station ::
  "('f, 't, 'v) world \<Rightarrow> ('f, 't, 'v) formats \<Rightarrow> inputs \<Rightarrow> nat \<Rightarrow> dateval \<Rightarrow> dateval
     \<Rightarrow> 'f \<Rightarrow> 'f \<Rightarrow> 'f \<Rightarrow> ('f, 't, 'v) state \<Rightarrow> outcome \<times> ('f, 't, 'v) state" where
  "choose_station w fm inp now start_d end_d lat lon elev s =
     (let (r, s1) = nearby_cached w now (lat, lon, elev) s
      in case r of
           Inl e \<Rightarrow> (Stopped, emit (Error (StationsFailed e)) s1)
         | Inr st_df \<Rightarrow>
             (case st_df of
                [] \<Rightarrow> (Stopped, emit (Warning NoStation) s1)
              | first # _ \<Rightarrow>
                  (let default_station_id = st_id first;
                       default_station_name =
                         (case st_name first of Some n \<Rightarrow> n | None \<Rightarrow> default_station_id);
                       labels = map station_label st_df;
                       s2 = emit (Selectbox labels 0) s1
                   in case selectbox labels 0 (station_choice inp) of
                        None \<Rightarrow> (Crashed TypeError, s2)
                      | Some label \<Rightarrow>
                          use_station w fm inp now start_d end_d
                            (strip (split_first em_dash label)) default_station_name s2)))"

subsection \<open>Choosing the place (lines 106 to 131)\<close>

text \<open>How an f-string shows \<^verbatim>\<open>p.get(key, "")\<close> and \<^verbatim>\<open>p.get(key)\<close>.\<close>

definition get_or_empty :: "pystr field \<Rightarrow> pystr" where
  "get_or_empty f = (case f of Missing \<Rightarrow> [] | Null \<Rightarrow> lit ''None'' | Val x \<Rightarrow> x)"

definition get_shown :: "('a \<Rightarrow> pystr) \<Rightarrow> 'a field \<Rightarrow> pystr" where
  "get_shown sh f = (case f of Missing \<Rightarrow> lit ''None'' | Null \<Rightarrow> lit ''None'' | Val x \<Rightarrow> sh x)"

definition place_label :: "('f, 't, 'v) formats \<Rightarrow> 'f place \<Rightarrow> pystr" where
  "place_label fm p =
     get_or_empty (pl_name p) @ lit '' '' @ [em_dash] @ lit '' '' @ get_or_empty (pl_admin1 p)
       @ lit '' '' @ get_or_empty (pl_admin2 p) @ lit '' ('' @ get_or_empty (pl_country p)
       @ lit '') [lat='' @ get_shown (str_f fm) (pl_latitude p)
       @ lit '', lon='' @ get_shown (str_f fm) (pl_longitude p) @ lit '']''"

text \<open>\<^verbatim>\<open>float(d[key])\<close>: a missing key raises \<^verbatim>\<open>KeyError\<close>, \<^verbatim>\<open>None\<close> raises
  \<^verbatim>\<open>TypeError\<close>.\<close>

definition float_item :: "pystr \<Rightarrow> 'f field \<Rightarrow> exn + 'f" where
  "float_item key f = (case f of Missing \<Rightarrow> Inl (KeyError key) | Null \<Rightarrow> Inl TypeError
                        | Val x \<Rightarrow> Inr x)"

text \<open>\<^verbatim>\<open>float(d.get(key) or 0.0)\<close>: \<^verbatim>\<open>None\<close> and zero are false.\<close>

definition float_or_zero :: "('f::zero) field \<Rightarrow> 'f" where
  "float_or_zero f = (case f of Missing \<Rightarrow> 0 | Null \<Rightarrow> 0 | Val x \<Rightarrow> if x = 0 then 0 else x)"

definition choose_place ::
  "('f::zero, 't, 'v) world \<Rightarrow> ('f, 't, 'v) formats \<Rightarrow> inputs \<Rightarrow> nat \<Rightarrow> dateval \<Rightarrow> dateval
     \<Rightarrow> 'f place list \<Rightarrow> ('f, 't, 'v) state \<Rightarrow> outcome \<times> ('f, 't, 'v) state" where
  "choose_place w fm inp now start_d end_d places s =
     (let place_labels = map (place_label fm) places;
          s1 = emit (Selectbox place_labels 0) s
      in case selectbox place_labels 0 (place_choice inp) of
           None \<Rightarrow> (Crashed ValueError, s1)
         | Some selected_place_label \<Rightarrow>
             (case index_of place_labels selected_place_label of
                None \<Rightarrow> (Crashed ValueError, s1)
              | Some j \<Rightarrow>
                  (let selected_place = places ! j
                   in case float_item (lit ''latitude'') (pl_latitude selected_place) of
                        Inl e \<Rightarrow> (Crashed e, s1)
                      | Inr lat \<Rightarrow>
                          (case float_item (lit ''longitude'') (pl_longitude selected_place) of
                             Inl e \<Rightarrow> (Crashed e, s1)
                           | Inr lon \<Rightarrow>
                               (let elev = float_or_zero (pl_elevation selected_place)
                                in choose_station w fm inp now start_d end_d lat lon elev
                                     (emit (Json selected_place lat lon elev) s1))))))"

subsection \<open>The script from the top (lines 82 to 104)\<close>

definition normalize_period :: "dateval \<Rightarrow> dateval \<times> dateval" where
  "normalize_period p = (case p of T [a, b] \<Rightarrow> (D a, D b) | _ \<Rightarrow> (p, p))"

definition geocode ::
  "('f::zero, 't, 'v) world \<Rightarrow> ('f, 't, 'v) formats \<Rightarrow> inputs \<Rightarrow> nat \<Rightarrow> dateval \<Rightarrow> dateval
     \<Rightarrow> ('f, 't, 'v) state \<Rightarrow> outcome \<times> ('f, 't, 'v) state" where
  "geocode w fm inp now start_d end_d s =
     (let (r, s1) = geocode_cached w now (city inp, country inp, 10, lit ''pt'') s
      in case r of
           Inl e \<Rightarrow> (Stopped, emit (Error (GeocodeFailed (city inp) (country inp) e)) s1)
         | Inr places \<Rightarrow>
             if places = [] then (Stopped, emit (Warning NoLocation) s1)
             else choose_place w fm inp now start_d end_d places s1)"

definition script ::
  "('f::zero, 't, 'v) world \<Rightarrow> ('f, 't, 'v) formats \<Rightarrow> inputs \<Rightarrow> nat \<Rightarrow> ('f, 't, 'v) state
     \<Rightarrow> outcome \<times> ('f, 't, 'v) state" where
  "script w fm inp now s =
     (let (start_d, end_d) = normalize_period (period inp)
      in case py_gt start_d end_d of
           Inl e \<Rightarrow> (Crashed e, s)
         | Inr True \<Rightarrow> (Stopped, emit (Error DateOrder) s)
         | Inr False \<Rightarrow> geocode w fm inp now start_d end_d s)"

section \<open>Notions the properties are stated with\<close>

text \<open>An entry of a cache is fresh while it is younger than the \<open>ttl\<close>.\<close>

definition fresh :: "nat \<Rightarrow> nat \<Rightarrow> ('k, 'r) ttl_cache \<Rightarrow> 'k \<Rightarrow> bool" where
  "fresh ttl now c k = (case c k of None \<Rightarrow> False | Some (t, v) \<Rightarrow> now < t + ttl)"

text \<open>A call of the series service asks for the range the script's \<^verbatim>\<open>start_d\<close> and
  \<^verbatim>\<open>end_d\<close> span: the two values themselves for daily data, the first day at 00:00:00
  and the last at 23:59:00 for hourly data. Other calls are not constrained.\<close>

definition series_range :: "dateval \<Rightarrow> dateval \<Rightarrow> 'f ext_call \<Rightarrow> bool" where
  "series_range start_d end_d c =
     (case c of
        Daily _ a b \<Rightarrow> a = start_d \<and> b = end_d
      | Hourly _ x y \<Rightarrow>
          (case (start_d, end_d) of
             (D d1, D d2) \<Rightarrow>
               x = \<lparr>dt_date = d1, hour = 0, minute = 0, second = 0, microsecond = 0\<rparr> \<and>
               y = \<lparr>dt_date = d2, hour = 23, minute = 59, second = 0, microsecond = 0\<rparr>
           | _ \<Rightarrow> False)
      | _ \<Rightarrow> True)"

text \<open>A string UTF-8 can encode: every code point is a Unicode scalar value.\<close>

definition encodable :: "pystr \<Rightarrow> bool" where
  "encodable s = list_all (\<lambda>c. c < 55296 \<or> (57344 \<le> c \<and> c < 1114112)) s"

text \<open>A call of the series service for the station \<open>sid\<close>.\<close>

definition station_call :: "pystr \<Rightarrow> 'f ext_call \<Rightarrow> bool" where
  "station_call sid c =
     (case c of Daily x _ _ \<Rightarrow> x = sid | Hourly x _ _ \<Rightarrow> x = sid | _ \<Rightarrow> False)"

text \<open>A log grows by entries that all satisfy \<open>P\<close>.\<close>

definition grows :: "('c \<Rightarrow> bool) \<Rightarrow> 'c list \<Rightarrow> 'c list \<Rightarrow> bool" where
  "grows P old new = (\<exists>added. new = old @ added \<and> list_all P added)"

section \<open>Reading an exported file back\<close>






section \<open>A sample session\<close>

text \<open>The defaults of the sidebar (Brisbane, Australia, January 2024) against services
  that answer with one candidate, one station and a two-day table.\<close>

definition jan :: "nat \<Rightarrow> date" where
  "jan n = \<lparr>year = 2024, month = 1, day = n\<rparr>"

definition brisbane :: "int place" where
  "brisbane = \<lparr>pl_name = Val (lit ''Brisbane''), pl_country = Val (lit ''Australia''),
       pl_admin1 = Val (lit ''Queensland''), pl_admin2 = Missing, pl_latitude = Val (- 27),
       pl_longitude = Val 153, pl_elevation = Val 27,
       pl_timezone = Val (lit ''Australia/Brisbane'')\<rparr>"

text \<open>A second candidate that prints the same label and has no elevation.\<close>

definition brisbane_twin :: "int place" where
  "brisbane_twin = brisbane\<lparr>pl_elevation := Missing\<rparr>"

definition sample_station :: station where
  "sample_station = \<lparr>st_id = lit ''94578'', st_name = Some (lit ''Brisbane''),
       st_distance = Some 1200\<rparr>"

definition sample_table :: "(nat, int) dataframe" where
  "sample_table = \<lparr>columns = [(lit ''temp'', True), (lit ''prcp'', True)],
       rows = [(1, [25, 3]), (2, [26, 0])]\<rparr>"

definition sample_world :: "(int, nat, int) world" where
  "sample_world =
     \<lparr>http_get = (\<lambda>url q timeout. Inr \<lparr>status_code = 200, json = Inr (Val [brisbane])\<rparr>),
      stations_nearby = (\<lambda>lat lon elev limit. Inr [sample_station]),
      daily = (\<lambda>sid a b. Inr sample_table),
      hourly = (\<lambda>sid a b. Inr sample_table),
      inventory = (\<lambda>sid. Inr (lit ''2000-01-01'', lit ''2024-12-31''))\<rparr>"

text \<open>Services that offer both candidates and know no station.\<close>

definition twin_world :: "(int, nat, int) world" where
  "twin_world = sample_world
     \<lparr>http_get := (\<lambda>url q timeout.
         Inr \<lparr>status_code = 200, json = Inr (Val [brisbane, brisbane_twin])\<rparr>),
      stations_nearby := (\<lambda>lat lon elev limit. Inr [])\<rparr>"

definition sample_formats :: "(int, nat, int) formats" where
  "sample_formats = \<lparr>str_f = str_int, str_t = str_nat, str_v = str_int\<rparr>"

definition sample_inputs :: inputs where
  "sample_inputs = \<lparr>country = lit ''Australia'', city = lit ''Brisbane'',
       period = T [jan 1, jan 31], granularity_choice = None, place_choice = None,
       station_choice = None, cols_choice = None\<rparr>"

text \<open>A second station, and services that offer both.\<close>

definition other_station :: station where
  "other_station = \<lparr>st_id = lit ''94576'', st_name = Some (lit ''Brisbane Aero''),
       st_distance = Some 13400\<rparr>"

definition two_station_world :: "(int, nat, int) world" where
  "two_station_world = sample_world
     \<lparr>stations_nearby := (\<lambda>lat lon elev limit. Inr [sample_station, other_station])\<rparr>"

text \<open>A station whose identifier holds the dash U+2014, and services that offer it and
  have no series for it.\<close>

definition dash_station :: station where
  "dash_station = \<lparr>st_id = lit ''AB'' @ [em_dash] @ lit ''C'', st_name = None,
       st_distance = None\<rparr>"

definition dash_world :: "(int, nat, int) world" where
  "dash_world = sample_world
     \<lparr>stations_nearby := (\<lambda>lat lon elev limit. Inr [dash_station]),
      daily := (\<lambda>sid a b. Inl (ServiceError 503))\<rparr>"

text \<open>A table with an observation column that is itself named \<^verbatim>\<open>time\<close>, a table of sixty
  days, and a table none of whose columns is among the preferred ones.\<close>

definition clash_table :: "(nat, int) dataframe" where
  "clash_table = \<lparr>columns = [(lit ''time'', False), (lit ''prcp'', True)],
       rows = [(1, [1, 3])]\<rparr>"

definition long_table :: "(nat, int) dataframe" where
  "long_table = \<lparr>columns = [(lit ''temp'', True), (lit ''coco'', False), (lit ''prcp'', True)],
       rows = map (\<lambda>n. (n, [25, 0, 3])) [0..<60]\<rparr>"

definition other_table :: "(nat, int) dataframe" where
  "other_table = \<lparr>columns = [(lit ''snow'', True), (lit ''wdir'', True), (lit ''tsun'', True)],
       rows = [(1, [0, 180, 600])]\<rparr>"

definition cold :: "(int, nat, int) state" where
  "cold = \<lparr>geo_cache = Map.empty, stations_cache = Map.empty, daily_cache = Map.empty,
       hourly_cache = Map.empty, calls = [], ui = []\<rparr>"

section \<open>Properties\<close>

lemma date_gt_irrefl: "\<not> date_gt d d"
  by (simp add: date_gt_def)

lemma tuple_gt_irrefl: "\<not> tuple_gt xs xs"
  by (induction xs) simp_all

subsection \<open>The call log only grows\<close>

lemma grows_refl: "grows P l l"
  by (simp add: grows_def)

lemma grows_trans: "grows P a b \<Longrightarrow> grows P b c \<Longrightarrow> grows P a c"
  by (auto simp: grows_def)

lemma grows_snoc: "P x \<Longrightarrow> grows P l (l @ [x])"
  by (simp add: grows_def)

lemma cache_data_grows:
  assumes "\<And>l. grows P l (snd (f k l))"
  shows "grows P log (snd (snd (cache_data ttl f now k (c, log))))"
proof -
  have "grows P log (snd (f k log))" by (rule assms)
  then show ?thesis
    by (auto simp: cache_data_def Let_def grows_refl split: option.splits prod.splits sum.splits)
qed

lemma render_calls: "calls (snd (render fm inp sid sd ed df s)) = calls s"
  by (simp add: render_def charts_def emit_def Let_def split: sum.splits)

lemma fetch_daily_grows: "grows (series_range sd ed) l (snd (fetch_daily w (sid, sd, ed) l))"
  by (simp add: fetch_daily_def grows_snoc series_range_def)

lemma fetch_hourly_grows: "grows (series_range sd ed) l (snd (fetch_hourly w (sid, sd, ed) l))"
  by (auto simp: fetch_hourly_def combine_def Let_def grows_refl series_range_def
      intro!: grows_snoc split: dateval.splits)

lemma fetch_series_grows:
  "grows (series_range sd ed) (calls s) (calls (snd (fetch_series w fm inp now sid sd ed s)))"
proof -
  have d: "grows (series_range sd ed) (calls s) (calls (snd (daily_cached w now (sid, sd, ed) s)))"
    using cache_data_grows [of "series_range sd ed" "fetch_daily w" "(sid, sd, ed)" "calls s"
        daily_ttl now "daily_cache s"] fetch_daily_grows [of sd ed _ w sid]
    by (auto simp: daily_cached_def split: prod.splits)
  have h: "grows (series_range sd ed) (calls s) (calls (snd (hourly_cached w now (sid, sd, ed) s)))"
    using cache_data_grows [of "series_range sd ed" "fetch_hourly w" "(sid, sd, ed)" "calls s"
        hourly_ttl now "hourly_cache s"] fetch_hourly_grows [of sd ed _ w sid]
    by (auto simp: hourly_cached_def split: prod.splits)
  show ?thesis
    using d h
    by (auto simp: fetch_series_def render_calls emit_def grows_refl Let_def
        split: option.splits prod.splits sum.splits if_splits)
qed

lemma fetch_series_after:
  "grows (series_range sd ed) l (calls s) \<Longrightarrow>
   grows (series_range sd ed) l (calls (snd (fetch_series w fm inp now sid sd ed s)))"
  by (erule grows_trans) (rule fetch_series_grows)

lemma nearby_cached_grows:
  "grows (series_range sd ed) (calls s) (calls (snd (nearby_cached w now (lat, lon, elev) s)))"
  using cache_data_grows [of "series_range sd ed" "nearby_stations w" "(lat, lon, elev)"
      "calls s" stations_ttl now "stations_cache s"]
  by (auto simp: nearby_cached_def nearby_stations_def grows_snoc series_range_def
      split: prod.splits)

lemma choose_station_grows:
  "grows (series_range sd ed) (calls s)
     (calls (snd (choose_station w fm inp now sd ed lat lon elev s)))"
proof -
  obtain r s1 where n: "nearby_cached w now (lat, lon, elev) s = (r, s1)"
    by (cases "nearby_cached w now (lat, lon, elev) s")
  have g1: "grows (series_range sd ed) (calls s) (calls s1)"
    using nearby_cached_grows [of sd ed s w now lat lon elev] n by simp
  have inv: "\<And>sid. grows (series_range sd ed) (calls s) (calls s1 @ [Inventory sid])"
    using g1 by (auto simp: grows_def series_range_def)
  show ?thesis
    using g1 inv
    by (auto simp: choose_station_def use_station_def n emit_def Let_def
        intro!: fetch_series_after split: sum.splits list.splits option.splits)
qed

lemma choose_station_after:
  "grows (series_range sd ed) l (calls s) \<Longrightarrow>
   grows (series_range sd ed) l (calls (snd (choose_station w fm inp now sd ed lat lon elev s)))"
  by (erule grows_trans) (rule choose_station_grows)

lemma choose_place_grows:
  "grows (series_range sd ed) (calls s)
     (calls (snd (choose_place w fm inp now sd ed places s)))"
  by (auto simp: choose_place_def emit_def Let_def grows_refl
      intro!: choose_station_after split: sum.splits option.splits)

lemma choose_place_after:
  "grows (series_range sd ed) l (calls s) \<Longrightarrow>
   grows (series_range sd ed) l (calls (snd (choose_place w fm inp now sd ed places s)))"
  by (erule grows_trans) (rule choose_place_grows)

lemma geocode_cached_grows:
  "grows (series_range sd ed) (calls s) (calls (snd (geocode_cached w now k s)))"
  using cache_data_grows [of "series_range sd ed" "geocode_city_country w" k
      "calls s" geocode_ttl now "geo_cache s"]
  by (auto simp: geocode_cached_def geocode_city_country_def grows_snoc series_range_def Let_def
      split: prod.splits sum.splits)

lemma geocode_grows:
  "grows (series_range sd ed) (calls s) (calls (snd (geocode w fm inp now sd ed s)))"
proof -
  obtain r s1 where n: "geocode_cached w now (city inp, country inp, 10, lit ''pt'') s = (r, s1)"
    by (cases "geocode_cached w now (city inp, country inp, 10, lit ''pt'') s")
  have g1: "grows (series_range sd ed) (calls s) (calls s1)"
    using geocode_cached_grows [of sd ed s w now] n by (metis snd_conv)
  show ?thesis
    using g1
    by (auto simp: geocode_def n emit_def Let_def
        intro!: choose_place_after split: sum.splits)
qed

subsection \<open>Date validation\<close>

text \<open>
  C2. When the date widget yields a pair whose start date is after its end date, the run
  stops at once: the only thing it does is show the validation error. The state is
  otherwise untouched, so nothing was sent to the geocoder, the station directory or the
  series service, and no cache entry was written.
\<close>

theorem start_after_end_stops:
  assumes "period inp = T [a, b]" and "date_gt a b"
  shows "script w fm inp now s = (Stopped, s\<lparr>ui := ui s @ [Error DateOrder]\<rparr>)
       \<and> calls (snd (script w fm inp now s)) = calls s"
  using assms by (simp add: script_def normalize_period_def emit_def)

theorem start_after_end_stops_witness:
  "period (sample_inputs\<lparr>period := T [jan 31, jan 1]\<rparr>) = T [jan 31, jan 1]
   \<and> date_gt (jan 31) (jan 1)
   \<and> script sample_world sample_formats (sample_inputs\<lparr>period := T [jan 31, jan 1]\<rparr>) 0 cold
       = (Stopped, cold\<lparr>ui := ui cold @ [Error DateOrder]\<rparr>)
   \<and> calls (snd (script sample_world sample_formats
                   (sample_inputs\<lparr>period := T [jan 31, jan 1]\<rparr>) 0 cold)) = calls cold"
proof -
  have p: "period (sample_inputs\<lparr>period := T [jan 31, jan 1]\<rparr>) = T [jan 31, jan 1]"
    by simp
  have g: "date_gt (jan 31) (jan 1)"
    by (simp add: date_gt_def jan_def)
  from start_after_end_stops [OF p g, of sample_world sample_formats 0 cold] p g
  show ?thesis by simp
qed

subsection \<open>A lone date\<close>

text \<open>
  When the date widget hands over one bare date, start and end are both that date, the
  validation lets the run pass to the geocoding step with them, and every call the run
  makes to the series service asks for that one day.
\<close>

lemma bare_date_is_one_day_range:
  assumes "period inp = D d"
  shows "normalize_period (period inp) = (D d, D d)
       \<and> script w fm inp now s = geocode w fm inp now (D d) (D d) s
       \<and> (\<exists>added. calls (snd (script w fm inp now s)) = calls s @ added
              \<and> list_all (series_range (D d) (D d)) added)"
proof -
  have n: "normalize_period (period inp) = (D d, D d)"
    using assms by (simp add: normalize_period_def)
  have sc: "script w fm inp now s = geocode w fm inp now (D d) (D d) s"
    by (simp add: script_def n date_gt_irrefl)
  have "grows (series_range (D d) (D d)) (calls s)
          (calls (snd (geocode w fm inp now (D d) (D d) s)))"
    by (rule geocode_grows)
  then have g: "\<exists>added. calls (snd (script w fm inp now s)) = calls s @ added
              \<and> list_all (series_range (D d) (D d)) added"
    by (simp only: grows_def sc)
  from n sc g show ?thesis by blast
qed

text \<open>The definitions a run of the sample session unfolds.\<close>

lemmas run_defs = script_def sample_inputs_def normalize_period_def jan_def date_gt_def
      geocode_def geocode_cached_def cache_data_def cold_def geocode_city_country_def
      raise_for_status_def results_or_empty_def choose_place_def selectbox_def
      place_label_def get_or_empty_def get_shown_def sample_formats_def str_int_def
      str_nat.simps lit_def brisbane_def float_item_def float_or_zero_def
      choose_station_def nearby_cached_def nearby_stations_def emit_def
      sample_world_def Let_def use_station_def fetch_series_def granularity_options_def
      startswith_def hourly_cached_def fetch_hourly_def daily_cached_def fetch_daily_def
      station_label_def split_first_def strip_def strip_with_def is_space_def
      sample_station_def em_dash_def df_empty_def sample_table_def

text \<open>
  C10. The date widget is created with a pair as its value, so it is a range picker, and
  while only the first day is picked it hands over a tuple of one date. Lines 83 to 86
  unpack a tuple of two dates only: the tuple of one is assigned whole to both
  \<^verbatim>\<open>start_d\<close> and \<^verbatim>\<open>end_d\<close>. The validation passes, and the fetch does not operate
  on a one-day range: for hourly data \<^verbatim>\<open>datetime.combine\<close> raises, the run stops with the
  series error and no request is sent; for daily data the series service is handed the
  two tuples.
\<close>

theorem one_date_tuple_is_not_unpacked:
  "normalize_period (T [jan 5]) = (T [jan 5], T [jan 5])
   \<and> fst (script sample_world sample_formats
            (sample_inputs\<lparr>period := T [jan 5], granularity_choice := Some 1\<rparr>) 0 cold) = Stopped
   \<and> last (ui (snd (script sample_world sample_formats
            (sample_inputs\<lparr>period := T [jan 5], granularity_choice := Some 1\<rparr>) 0 cold)))
       = Error (SeriesFailed TypeError)
   \<and> drop 2 (calls (snd (script sample_world sample_formats
            (sample_inputs\<lparr>period := T [jan 5], granularity_choice := Some 1\<rparr>) 0 cold)))
       = [Inventory (lit ''94578'')]
   \<and> drop 2 (calls (snd (script sample_world sample_formats
            (sample_inputs\<lparr>period := T [jan 5]\<rparr>) 0 cold)))
       = [Inventory (lit ''94578''), Daily (lit ''94578'') (T [jan 5]) (T [jan 5])]"
  by (simp add: run_defs render_calls)

subsection \<open>The hourly range\<close>

text \<open>
  C3. For every station identifier and all dates D1 and D2 (ordered or not), the hourly
  fetch sends one request to the series service, for the range from D1 at 00:00:00 to D2 at
  23:59:00, and returns what the service answers.
\<close>

theorem fetch_hourly_range:
  "fetch_hourly w (station_id, D d1, D d2) log =
     (hourly w station_id
        \<lparr>dt_date = d1, hour = 0, minute = 0, second = 0, microsecond = 0\<rparr>
        \<lparr>dt_date = d2, hour = 23, minute = 59, second = 0, microsecond = 0\<rparr>,
      log @ [Hourly station_id
        \<lparr>dt_date = d1, hour = 0, minute = 0, second = 0, microsecond = 0\<rparr>
        \<lparr>dt_date = d2, hour = 23, minute = 59, second = 0, microsecond = 0\<rparr>])"
  by (simp add: fetch_hourly_def combine_def Let_def)

subsection \<open>Geocoding without a result\<close>

text \<open>
  C6. Let the date check pass. If the geocoding call is made (no fresh cache entry) and
  the service answers with a status outside 400 to 599 and a JSON body whose
  \<^verbatim>\<open>results\<close> field is missing, null or the empty list, the run stops with the warning
  that no location was found; the same holds when a fresh cache entry holds the empty
  list. If instead the request raises (a network failure), or the answer carries a status
  from 400 to 599, the run stops with the geocoding error message. In every case the only
  call that left the program is the geocoding request (none at all on the cached path):
  no station lookup is made.
\<close>

theorem no_location_or_geocoding_failure:
  fixes w :: "('f::zero, 't, 'v) world" and inp :: inputs and s :: "('f, 't, 'v) state"
  defines "key \<equiv> (city inp, country inp, 10, lit ''pt'')"
  defines "q \<equiv> \<lparr>q_name = strip_with (\<lambda>c. c = 44) (strip (city inp @ lit '', '' @ country inp)),
                 q_count = 10, q_format = lit ''json'', q_language = lit ''pt''\<rparr>"
  defines "s1 \<equiv> s\<lparr>calls := calls s @ [HttpGet geocoding_url q 30]\<rparr>"
  assumes valid: "py_gt (fst (normalize_period (period inp))) (snd (normalize_period (period inp))) = Inr False"
  shows "(\<forall>r f. \<not> fresh geocode_ttl now (geo_cache s) key \<and>
            http_get w geocoding_url q 30 = Inr r \<and> \<not> (400 \<le> status_code r \<and> status_code r < 600) \<and>
            json r = Inr f \<and> (f = Missing \<or> f = Null \<or> f = Val []) \<longrightarrow>
            script w fm inp now s =
              (Stopped, s1\<lparr>geo_cache := (geo_cache s)(key \<mapsto> (now, [])),
                           ui := ui s @ [Warning NoLocation]\<rparr>))
       \<and> (\<forall>t. fresh geocode_ttl now (geo_cache s) key \<and> geo_cache s key = Some (t, []) \<longrightarrow>
            script w fm inp now s = (Stopped, s\<lparr>ui := ui s @ [Warning NoLocation]\<rparr>))
       \<and> (\<forall>e. \<not> fresh geocode_ttl now (geo_cache s) key \<and>
            http_get w geocoding_url q 30 = Inl e \<longrightarrow>
            script w fm inp now s =
              (Stopped, s1\<lparr>ui := ui s @ [Error (GeocodeFailed (city inp) (country inp) e)]\<rparr>))
       \<and> (\<forall>r. \<not> fresh geocode_ttl now (geo_cache s) key \<and>
            http_get w geocoding_url q 30 = Inr r \<and> 400 \<le> status_code r \<and> status_code r < 600 \<longrightarrow>
            script w fm inp now s =
              (Stopped, s1\<lparr>ui := ui s @ [Error (GeocodeFailed (city inp) (country inp)
                                                  (HTTPError (status_code r)))]\<rparr>))"
  using valid unfolding key_def q_def s1_def
  by (auto simp: script_def geocode_def geocode_cached_def cache_data_def geocode_city_country_def
      fresh_def raise_for_status_def results_or_empty_def emit_def Let_def
      split: prod.splits option.splits sum.splits)

theorem no_location_or_geocoding_failure_witness:
  "py_gt (fst (normalize_period (period sample_inputs)))
          (snd (normalize_period (period sample_inputs))) = Inr False
   \<and> ui (snd (script (sample_world\<lparr>http_get := \<lambda>u q t. Inr \<lparr>status_code = 200, json = Inr Missing\<rparr>\<rparr>)
          sample_formats sample_inputs 0 cold)) = [Warning NoLocation]
   \<and> ui (snd (script (sample_world\<lparr>http_get := \<lambda>u q t. Inl ConnectionError\<rparr>)
          sample_formats sample_inputs 0 cold))
       = [Error (GeocodeFailed (lit ''Brisbane'') (lit ''Australia'') ConnectionError)]
   \<and> ui (snd (script (sample_world\<lparr>http_get := \<lambda>u q t. Inr \<lparr>status_code = 404, json = Inl JSONDecodeError\<rparr>\<rparr>)
          sample_formats sample_inputs 0 cold))
       = [Error (GeocodeFailed (lit ''Brisbane'') (lit ''Australia'') (HTTPError 404))]
   \<and> ui (snd (script sample_world sample_formats sample_inputs 10
          (cold\<lparr>geo_cache := [(lit ''Brisbane'', lit ''Australia'', 10, lit ''pt'') \<mapsto> (0, [])]\<rparr>)))
       = [Warning NoLocation]"
proof -
  have v: "py_gt (fst (normalize_period (period sample_inputs)))
          (snd (normalize_period (period sample_inputs))) = Inr False"
    by (simp add: sample_inputs_def normalize_period_def date_gt_def jan_def)
  have f: "\<not> fresh geocode_ttl 0 (geo_cache cold) k" for k
    by (simp add: fresh_def cold_def)
  have a: "ui (snd (script (sample_world\<lparr>http_get := \<lambda>u q t. Inr \<lparr>status_code = 200, json = Inr Missing\<rparr>\<rparr>)
          sample_formats sample_inputs 0 cold)) = [Warning NoLocation]"
    using no_location_or_geocoding_failure [OF v, of 0 cold "sample_world\<lparr>http_get := \<lambda>u q t. Inr \<lparr>status_code = 200, json = Inr Missing\<rparr>\<rparr>" sample_formats] f
    by (simp add: cold_def)
  have b: "ui (snd (script (sample_world\<lparr>http_get := \<lambda>u q t. Inl ConnectionError\<rparr>)
          sample_formats sample_inputs 0 cold))
       = [Error (GeocodeFailed (lit ''Brisbane'') (lit ''Australia'') ConnectionError)]"
    using no_location_or_geocoding_failure [OF v, of 0 cold "sample_world\<lparr>http_get := \<lambda>u q t. Inl ConnectionError\<rparr>" sample_formats] f
    by (simp add: cold_def sample_inputs_def)
  have c: "ui (snd (script (sample_world\<lparr>http_get := \<lambda>u q t. Inr \<lparr>status_code = 404, json = Inl JSONDecodeError\<rparr>\<rparr>)
          sample_formats sample_inputs 0 cold))
       = [Error (GeocodeFailed (lit ''Brisbane'') (lit ''Australia'') (HTTPError 404))]"
    using no_location_or_geocoding_failure [OF v, of 0 cold "sample_world\<lparr>http_get := \<lambda>u q t. Inr \<lparr>status_code = 404, json = Inl JSONDecodeError\<rparr>\<rparr>" sample_formats] f
    by (simp add: cold_def sample_inputs_def)
  have d: "ui (snd (script sample_world sample_formats sample_inputs 10
          (cold\<lparr>geo_cache := [(lit ''Brisbane'', lit ''Australia'', 10, lit ''pt'') \<mapsto> (0, [])]\<rparr>)))
       = [Warning NoLocation]"
    using no_location_or_geocoding_failure [OF v, of 10 "cold\<lparr>geo_cache := [(lit ''Brisbane'', lit ''Australia'', 10, lit ''pt'') \<mapsto> (0, [])]\<rparr>" sample_world sample_formats]
    by (simp add: cold_def sample_inputs_def fresh_def geocode_ttl_def)
  from v a b c d show ?thesis by blast
qed

subsection \<open>Memoization with expiry\<close>

lemma cache_data_miss:
  assumes "\<not> fresh ttl now c k"
  shows "cache_data ttl f now k (c, log) =
           (case f k log of
              (Inl e, log') \<Rightarrow> (Inl e, c, log')
            | (Inr v, log') \<Rightarrow> (Inr v, c(k \<mapsto> (now, v)), log'))"
  using assms by (auto simp: cache_data_def fresh_def Let_def split: option.splits)

lemma geocode_memo:
  assumes miss: "\<not> fresh 3600 t1 (geo_cache s) k"
    and first: "geocode_cached w1 t1 k s = (Inr v, s1)"
  shows "geo_cache s1 = (geo_cache s)(k \<mapsto> (t1, v))
       \<and> (t1 \<le> t2 \<and> t2 < t1 + 3600 \<longrightarrow> geocode_cached w2 t2 k s1 = (Inr v, s1))
       \<and> (t1 + 3600 \<le> t3 \<longrightarrow>
            calls (snd (geocode_cached w3 t3 k s1)) = snd (geocode_city_country w3 k (calls s1))
          \<and> fst (geocode_cached w3 t3 k s1) = fst (geocode_city_country w3 k (calls s1))
          \<and> (\<forall>v3. fst (geocode_cached w3 t3 k s1) = Inr v3 \<longrightarrow>
                geo_cache (snd (geocode_cached w3 t3 k s1)) = (geo_cache s1)(k \<mapsto> (t3, v3))))"
proof -
  have st: "geo_cache s1 = (geo_cache s)(k \<mapsto> (t1, v))"
    using first miss
    by (auto simp: geocode_cached_def geocode_ttl_def cache_data_miss split: prod.splits sum.splits)
  then have e: "geo_cache s1 k = Some (t1, v)" by simp
  have hit: "geocode_cached w2 t2 k s1 = (Inr v, s1)" if "t2 < t1 + 3600"
    using that e by (simp add: geocode_cached_def geocode_ttl_def cache_data_def)
  have old: "\<not> fresh 3600 t3 (geo_cache s1) k" if "t1 + 3600 \<le> t3"
    using that e by (simp add: fresh_def)
  have again: "calls (snd (geocode_cached w3 t3 k s1)) = snd (geocode_city_country w3 k (calls s1))
          \<and> fst (geocode_cached w3 t3 k s1) = fst (geocode_city_country w3 k (calls s1))
          \<and> (\<forall>v3. fst (geocode_cached w3 t3 k s1) = Inr v3 \<longrightarrow>
                geo_cache (snd (geocode_cached w3 t3 k s1)) = (geo_cache s1)(k \<mapsto> (t3, v3)))"
    if "t1 + 3600 \<le> t3"
    by (auto simp: geocode_cached_def geocode_ttl_def cache_data_miss [OF old [OF that]]
        split: prod.splits sum.splits)
  from st hit again show ?thesis by blast
qed

lemma nearby_memo:
  assumes miss: "\<not> fresh 3600 t1 (stations_cache s) k"
    and first: "nearby_cached w1 t1 k s = (Inr v, s1)"
  shows "stations_cache s1 = (stations_cache s)(k \<mapsto> (t1, v))
       \<and> (t1 \<le> t2 \<and> t2 < t1 + 3600 \<longrightarrow> nearby_cached w2 t2 k s1 = (Inr v, s1))
       \<and> (t1 + 3600 \<le> t3 \<longrightarrow>
            calls (snd (nearby_cached w3 t3 k s1)) = snd (nearby_stations w3 k (calls s1))
          \<and> fst (nearby_cached w3 t3 k s1) = fst (nearby_stations w3 k (calls s1))
          \<and> (\<forall>v3. fst (nearby_cached w3 t3 k s1) = Inr v3 \<longrightarrow>
                stations_cache (snd (nearby_cached w3 t3 k s1)) = (stations_cache s1)(k \<mapsto> (t3, v3))))"
proof -
  have st: "stations_cache s1 = (stations_cache s)(k \<mapsto> (t1, v))"
    using first miss
    by (auto simp: nearby_cached_def stations_ttl_def cache_data_miss split: prod.splits sum.splits)
  then have e: "stations_cache s1 k = Some (t1, v)" by simp
  have hit: "nearby_cached w2 t2 k s1 = (Inr v, s1)" if "t2 < t1 + 3600"
    using that e by (simp add: nearby_cached_def stations_ttl_def cache_data_def)
  have old: "\<not> fresh 3600 t3 (stations_cache s1) k" if "t1 + 3600 \<le> t3"
    using that e by (simp add: fresh_def)
  have again: "calls (snd (nearby_cached w3 t3 k s1)) = snd (nearby_stations w3 k (calls s1))
          \<and> fst (nearby_cached w3 t3 k s1) = fst (nearby_stations w3 k (calls s1))
          \<and> (\<forall>v3. fst (nearby_cached w3 t3 k s1) = Inr v3 \<longrightarrow>
                stations_cache (snd (nearby_cached w3 t3 k s1)) = (stations_cache s1)(k \<mapsto> (t3, v3)))"
    if "t1 + 3600 \<le> t3"
    by (auto simp: nearby_cached_def stations_ttl_def cache_data_miss [OF old [OF that]]
        split: prod.splits sum.splits)
  from st hit again show ?thesis by blast
qed

lemma daily_memo:
  assumes miss: "\<not> fresh 1800 t1 (daily_cache s) k"
    and first: "daily_cached w1 t1 k s = (Inr v, s1)"
  shows "daily_cache s1 = (daily_cache s)(k \<mapsto> (t1, v))
       \<and> (t1 \<le> t2 \<and> t2 < t1 + 1800 \<longrightarrow> daily_cached w2 t2 k s1 = (Inr v, s1))
       \<and> (t1 + 1800 \<le> t3 \<longrightarrow>
            calls (snd (daily_cached w3 t3 k s1)) = snd (fetch_daily w3 k (calls s1))
          \<and> fst (daily_cached w3 t3 k s1) = fst (fetch_daily w3 k (calls s1))
          \<and> (\<forall>v3. fst (daily_cached w3 t3 k s1) = Inr v3 \<longrightarrow>
                daily_cache (snd (daily_cached w3 t3 k s1)) = (daily_cache s1)(k \<mapsto> (t3, v3))))"
proof -
  have st: "daily_cache s1 = (daily_cache s)(k \<mapsto> (t1, v))"
    using first miss
    by (auto simp: daily_cached_def daily_ttl_def cache_data_miss split: prod.splits sum.splits)
  then have e: "daily_cache s1 k = Some (t1, v)" by simp
  have hit: "daily_cached w2 t2 k s1 = (Inr v, s1)" if "t2 < t1 + 1800"
    using that e by (simp add: daily_cached_def daily_ttl_def cache_data_def)
  have old: "\<not> fresh 1800 t3 (daily_cache s1) k" if "t1 + 1800 \<le> t3"
    using that e by (simp add: fresh_def)
  have again: "calls (snd (daily_cached w3 t3 k s1)) = snd (fetch_daily w3 k (calls s1))
          \<and> fst (daily_cached w3 t3 k s1) = fst (fetch_daily w3 k (calls s1))
          \<and> (\<forall>v3. fst (daily_cached w3 t3 k s1) = Inr v3 \<longrightarrow>
                daily_cache (snd (daily_cached w3 t3 k s1)) = (daily_cache s1)(k \<mapsto> (t3, v3)))"
    if "t1 + 1800 \<le> t3"
    by (auto simp: daily_cached_def daily_ttl_def cache_data_miss [OF old [OF that]]
        split: prod.splits sum.splits)
  from st hit again show ?thesis by blast
qed

lemma hourly_memo:
  assumes miss: "\<not> fresh 1800 t1 (hourly_cache s) k"
    and first: "hourly_cached w1 t1 k s = (Inr v, s1)"
  shows "hourly_cache s1 = (hourly_cache s)(k \<mapsto> (t1, v))
       \<and> (t1 \<le> t2 \<and> t2 < t1 + 1800 \<longrightarrow> hourly_cached w2 t2 k s1 = (Inr v, s1))
       \<and> (t1 + 1800 \<le> t3 \<longrightarrow>
            calls (snd (hourly_cached w3 t3 k s1)) = snd (fetch_hourly w3 k (calls s1))
          \<and> fst (hourly_cached w3 t3 k s1) = fst (fetch_hourly w3 k (calls s1))
          \<and> (\<forall>v3. fst (hourly_cached w3 t3 k s1) = Inr v3 \<longrightarrow>
                hourly_cache (snd (hourly_cached w3 t3 k s1)) = (hourly_cache s1)(k \<mapsto> (t3, v3))))"
proof -
  have st: "hourly_cache s1 = (hourly_cache s)(k \<mapsto> (t1, v))"
    using first miss
    by (auto simp: hourly_cached_def hourly_ttl_def cache_data_miss split: prod.splits sum.splits)
  then have e: "hourly_cache s1 k = Some (t1, v)" by simp
  have hit: "hourly_cached w2 t2 k s1 = (Inr v, s1)" if "t2 < t1 + 1800"
    using that e by (simp add: hourly_cached_def hourly_ttl_def cache_data_def)
  have old: "\<not> fresh 1800 t3 (hourly_cache s1) k" if "t1 + 1800 \<le> t3"
    using that e by (simp add: fresh_def)
  have again: "calls (snd (hourly_cached w3 t3 k s1)) = snd (fetch_hourly w3 k (calls s1))
          \<and> fst (hourly_cached w3 t3 k s1) = fst (fetch_hourly w3 k (calls s1))
          \<and> (\<forall>v3. fst (hourly_cached w3 t3 k s1) = Inr v3 \<longrightarrow>
                hourly_cache (snd (hourly_cached w3 t3 k s1)) = (hourly_cache s1)(k \<mapsto> (t3, v3)))"
    if "t1 + 1800 \<le> t3"
    by (auto simp: hourly_cached_def hourly_ttl_def cache_data_miss [OF old [OF that]]
        split: prod.splits sum.splits)
  from st hit again show ?thesis by blast
qed

lemma geocode_call:
  "snd (geocode_city_country w (cty, ctry, n, lang) l) =
     l @ [HttpGet geocoding_url
            \<lparr>q_name = strip_with (\<lambda>c. c = 44) (strip (cty @ lit '', '' @ ctry)), q_count = n,
               q_format = lit ''json'', q_language = lang\<rparr> 30]"
  by (simp add: geocode_city_country_def Let_def split: sum.splits)

lemma nearby_call: "nearby_stations w (lat, lon, elev) l =
     (stations_nearby w lat lon elev 10, l @ [Nearby lat lon elev 10])"
  by (simp add: nearby_stations_def)

lemma daily_call: "fetch_daily w (sid, a, b) l = (daily w sid a b, l @ [Daily sid a b])"
  by (simp add: fetch_daily_def)

lemma hourly_call: "fetch_hourly w (sid, D d1, D d2) l =
     (hourly w sid (combine d1 (0, 0)) (combine d2 (23, 59)),
      l @ [Hourly sid (combine d1 (0, 0)) (combine d2 (23, 59))])"
  by (simp add: fetch_hourly_def Let_def)

text \<open>
  C1. Each fetch operation keeps its own table, keyed by the whole argument tuple:
  geocoding and the station lookup with an expiry of 3600 seconds, the daily and the
  hourly series fetch with 1800 seconds. Take a call at time \<open>ta\<close> that found no fresh
  entry and returned a result. Then the result is stored under the arguments with the
  time \<open>ta\<close>. A call with the same arguments at any later time before \<open>ta\<close> plus the expiry
  returns the stored result and leaves the state as it is, the call log included: nothing
  is sent out. A call with the same arguments at or after \<open>ta\<close> plus the expiry sends the
  request again, returns what the service answers now, and, when that is a result,
  stores it under the same arguments with the new time.
\<close>

theorem memoized_with_expiry:
  "(\<not> fresh 3600 ta (geo_cache sg) (cty, ctry, n, lang) \<and>
      geocode_cached wa ta (cty, ctry, n, lang) sg = (Inr places, sg') \<longrightarrow>
        geo_cache sg' = (geo_cache sg)((cty, ctry, n, lang) \<mapsto> (ta, places))
      \<and> (ta \<le> tb \<and> tb < ta + 3600 \<longrightarrow>
            geocode_cached wb tb (cty, ctry, n, lang) sg' = (Inr places, sg'))
      \<and> (ta + 3600 \<le> tc \<longrightarrow>
            calls (snd (geocode_cached wc tc (cty, ctry, n, lang) sg')) =
              calls sg' @ [HttpGet geocoding_url
                \<lparr>q_name = strip_with (\<lambda>c. c = 44) (strip (cty @ lit '', '' @ ctry)),
                   q_count = n, q_format = lit ''json'', q_language = lang\<rparr> 30]
          \<and> fst (geocode_cached wc tc (cty, ctry, n, lang) sg') =
              fst (geocode_city_country wc (cty, ctry, n, lang) (calls sg'))
          \<and> (\<forall>v. fst (geocode_cached wc tc (cty, ctry, n, lang) sg') = Inr v \<longrightarrow>
                geo_cache (snd (geocode_cached wc tc (cty, ctry, n, lang) sg')) =
                  (geo_cache sg')((cty, ctry, n, lang) \<mapsto> (tc, v)))))
 \<and> (\<not> fresh 3600 ta (stations_cache sn) (lat, lon, elev) \<and>
      nearby_cached wa ta (lat, lon, elev) sn = (Inr stations, sn') \<longrightarrow>
        stations_cache sn' = (stations_cache sn)((lat, lon, elev) \<mapsto> (ta, stations))
      \<and> (ta \<le> tb \<and> tb < ta + 3600 \<longrightarrow>
            nearby_cached wb tb (lat, lon, elev) sn' = (Inr stations, sn'))
      \<and> (ta + 3600 \<le> tc \<longrightarrow>
            calls (snd (nearby_cached wc tc (lat, lon, elev) sn')) =
              calls sn' @ [Nearby lat lon elev 10]
          \<and> fst (nearby_cached wc tc (lat, lon, elev) sn') = stations_nearby wc lat lon elev 10
          \<and> (\<forall>v. fst (nearby_cached wc tc (lat, lon, elev) sn') = Inr v \<longrightarrow>
                stations_cache (snd (nearby_cached wc tc (lat, lon, elev) sn')) =
                  (stations_cache sn')((lat, lon, elev) \<mapsto> (tc, v)))))
 \<and> (\<not> fresh 1800 ta (daily_cache sd) (sid, a, b) \<and>
      daily_cached wa ta (sid, a, b) sd = (Inr df, sd') \<longrightarrow>
        daily_cache sd' = (daily_cache sd)((sid, a, b) \<mapsto> (ta, df))
      \<and> (ta \<le> tb \<and> tb < ta + 1800 \<longrightarrow> daily_cached wb tb (sid, a, b) sd' = (Inr df, sd'))
      \<and> (ta + 1800 \<le> tc \<longrightarrow>
            calls (snd (daily_cached wc tc (sid, a, b) sd')) = calls sd' @ [Daily sid a b]
          \<and> fst (daily_cached wc tc (sid, a, b) sd') = daily wc sid a b
          \<and> (\<forall>v. fst (daily_cached wc tc (sid, a, b) sd') = Inr v \<longrightarrow>
                daily_cache (snd (daily_cached wc tc (sid, a, b) sd')) =
                  (daily_cache sd')((sid, a, b) \<mapsto> (tc, v)))))
 \<and> (\<not> fresh 1800 ta (hourly_cache sh) (sid, D dx, D dy) \<and>
      hourly_cached wa ta (sid, D dx, D dy) sh = (Inr df, sh') \<longrightarrow>
        hourly_cache sh' = (hourly_cache sh)((sid, D dx, D dy) \<mapsto> (ta, df))
      \<and> (ta \<le> tb \<and> tb < ta + 1800 \<longrightarrow>
            hourly_cached wb tb (sid, D dx, D dy) sh' = (Inr df, sh'))
      \<and> (ta + 1800 \<le> tc \<longrightarrow>
            calls (snd (hourly_cached wc tc (sid, D dx, D dy) sh')) =
              calls sh' @ [Hourly sid (combine dx (0, 0)) (combine dy (23, 59))]
          \<and> fst (hourly_cached wc tc (sid, D dx, D dy) sh') =
              hourly wc sid (combine dx (0, 0)) (combine dy (23, 59))
          \<and> (\<forall>v. fst (hourly_cached wc tc (sid, D dx, D dy) sh') = Inr v \<longrightarrow>
                hourly_cache (snd (hourly_cached wc tc (sid, D dx, D dy) sh')) =
                  (hourly_cache sh')((sid, D dx, D dy) \<mapsto> (tc, v)))))"
proof -
  have g: "(\<not> fresh 3600 ta (geo_cache sg) (cty, ctry, n, lang) \<and>
      geocode_cached wa ta (cty, ctry, n, lang) sg = (Inr places, sg') \<longrightarrow>
        geo_cache sg' = (geo_cache sg)((cty, ctry, n, lang) \<mapsto> (ta, places))
      \<and> (ta \<le> tb \<and> tb < ta + 3600 \<longrightarrow>
            geocode_cached wb tb (cty, ctry, n, lang) sg' = (Inr places, sg'))
      \<and> (ta + 3600 \<le> tc \<longrightarrow>
            calls (snd (geocode_cached wc tc (cty, ctry, n, lang) sg')) =
              calls sg' @ [HttpGet geocoding_url
                \<lparr>q_name = strip_with (\<lambda>c. c = 44) (strip (cty @ lit '', '' @ ctry)),
                   q_count = n, q_format = lit ''json'', q_language = lang\<rparr> 30]
          \<and> fst (geocode_cached wc tc (cty, ctry, n, lang) sg') =
              fst (geocode_city_country wc (cty, ctry, n, lang) (calls sg'))
          \<and> (\<forall>v. fst (geocode_cached wc tc (cty, ctry, n, lang) sg') = Inr v \<longrightarrow>
                geo_cache (snd (geocode_cached wc tc (cty, ctry, n, lang) sg')) =
                  (geo_cache sg')((cty, ctry, n, lang) \<mapsto> (tc, v)))))"
    using geocode_memo [of ta sg "(cty, ctry, n, lang)" wa places sg' tb wb tc wc]
      geocode_call [of wc cty ctry n lang "calls sg'"]
    by simp
  have n: "(\<not> fresh 3600 ta (stations_cache sn) (lat, lon, elev) \<and>
      nearby_cached wa ta (lat, lon, elev) sn = (Inr stations, sn') \<longrightarrow>
        stations_cache sn' = (stations_cache sn)((lat, lon, elev) \<mapsto> (ta, stations))
      \<and> (ta \<le> tb \<and> tb < ta + 3600 \<longrightarrow>
            nearby_cached wb tb (lat, lon, elev) sn' = (Inr stations, sn'))
      \<and> (ta + 3600 \<le> tc \<longrightarrow>
            calls (snd (nearby_cached wc tc (lat, lon, elev) sn')) =
              calls sn' @ [Nearby lat lon elev 10]
          \<and> fst (nearby_cached wc tc (lat, lon, elev) sn') = stations_nearby wc lat lon elev 10
          \<and> (\<forall>v. fst (nearby_cached wc tc (lat, lon, elev) sn') = Inr v \<longrightarrow>
                stations_cache (snd (nearby_cached wc tc (lat, lon, elev) sn')) =
                  (stations_cache sn')((lat, lon, elev) \<mapsto> (tc, v)))))"
    using nearby_memo [of ta sn "(lat, lon, elev)" wa stations sn' tb wb tc wc]
      nearby_call [of wc lat lon elev "calls sn'"]
    by simp
  have d: "(\<not> fresh 1800 ta (daily_cache sd) (sid, a, b) \<and>
      daily_cached wa ta (sid, a, b) sd = (Inr df, sd') \<longrightarrow>
        daily_cache sd' = (daily_cache sd)((sid, a, b) \<mapsto> (ta, df))
      \<and> (ta \<le> tb \<and> tb < ta + 1800 \<longrightarrow> daily_cached wb tb (sid, a, b) sd' = (Inr df, sd'))
      \<and> (ta + 1800 \<le> tc \<longrightarrow>
            calls (snd (daily_cached wc tc (sid, a, b) sd')) = calls sd' @ [Daily sid a b]
          \<and> fst (daily_cached wc tc (sid, a, b) sd') = daily wc sid a b
          \<and> (\<forall>v. fst (daily_cached wc tc (sid, a, b) sd') = Inr v \<longrightarrow>
                daily_cache (snd (daily_cached wc tc (sid, a, b) sd')) =
                  (daily_cache sd')((sid, a, b) \<mapsto> (tc, v)))))"
    using daily_memo [of ta sd "(sid, a, b)" wa df sd' tb wb tc wc]
      daily_call [of wc sid a b "calls sd'"]
    by simp
  have h: "(\<not> fresh 1800 ta (hourly_cache sh) (sid, D dx, D dy) \<and>
      hourly_cached wa ta (sid, D dx, D dy) sh = (Inr df, sh') \<longrightarrow>
        hourly_cache sh' = (hourly_cache sh)((sid, D dx, D dy) \<mapsto> (ta, df))
      \<and> (ta \<le> tb \<and> tb < ta + 1800 \<longrightarrow>
            hourly_cached wb tb (sid, D dx, D dy) sh' = (Inr df, sh'))
      \<and> (ta + 1800 \<le> tc \<longrightarrow>
            calls (snd (hourly_cached wc tc (sid, D dx, D dy) sh')) =
              calls sh' @ [Hourly sid (combine dx (0, 0)) (combine dy (23, 59))]
          \<and> fst (hourly_cached wc tc (sid, D dx, D dy) sh') =
              hourly wc sid (combine dx (0, 0)) (combine dy (23, 59))
          \<and> (\<forall>v. fst (hourly_cached wc tc (sid, D dx, D dy) sh') = Inr v \<longrightarrow>
                hourly_cache (snd (hourly_cached wc tc (sid, D dx, D dy) sh')) =
                  (hourly_cache sh')((sid, D dx, D dy) \<mapsto> (tc, v)))))"
    using hourly_memo [of ta sh "(sid, D dx, D dy)" wa df sh' tb wb tc wc]
      hourly_call [of wc sid dx dy "calls sh'"]
    by simp
  from g n d h show ?thesis by blast
qed

theorem memoized_with_expiry_witness:
  "(\<not> fresh 3600 0 (geo_cache cold) (lit ''Brisbane'', lit ''Australia'', 10, lit ''pt'')
    \<and> fst (geocode_cached sample_world 0 (lit ''Brisbane'', lit ''Australia'', 10, lit ''pt'') cold)
        = Inr [brisbane]
    \<and> geocode_cached sample_world 3599 (lit ''Brisbane'', lit ''Australia'', 10, lit ''pt'')
          (snd (geocode_cached sample_world 0
                  (lit ''Brisbane'', lit ''Australia'', 10, lit ''pt'') cold))
        = (Inr [brisbane],
           snd (geocode_cached sample_world 0
                  (lit ''Brisbane'', lit ''Australia'', 10, lit ''pt'') cold))
    \<and> length (calls (snd (geocode_cached sample_world 3600
                (lit ''Brisbane'', lit ''Australia'', 10, lit ''pt'')
                (snd (geocode_cached sample_world 0
                  (lit ''Brisbane'', lit ''Australia'', 10, lit ''pt'') cold))))) = 2)
 \<and> (\<not> fresh 3600 0 (stations_cache cold) (- 27, 153, 27)
    \<and> fst (nearby_cached sample_world 0 (- 27, 153, 27) cold) = Inr [sample_station]
    \<and> nearby_cached sample_world 3599 (- 27, 153, 27)
          (snd (nearby_cached sample_world 0 (- 27, 153, 27) cold))
        = (Inr [sample_station], snd (nearby_cached sample_world 0 (- 27, 153, 27) cold))
    \<and> length (calls (snd (nearby_cached sample_world 3600 (- 27, 153, 27)
                (snd (nearby_cached sample_world 0 (- 27, 153, 27) cold))))) = 2)
 \<and> (\<not> fresh 1800 0 (daily_cache cold) (lit ''94578'', D (jan 1), D (jan 31))
    \<and> fst (daily_cached sample_world 0 (lit ''94578'', D (jan 1), D (jan 31)) cold)
        = Inr sample_table
    \<and> daily_cached sample_world 1799 (lit ''94578'', D (jan 1), D (jan 31))
          (snd (daily_cached sample_world 0 (lit ''94578'', D (jan 1), D (jan 31)) cold))
        = (Inr sample_table,
           snd (daily_cached sample_world 0 (lit ''94578'', D (jan 1), D (jan 31)) cold))
    \<and> length (calls (snd (daily_cached sample_world 1800
                (lit ''94578'', D (jan 1), D (jan 31))
                (snd (daily_cached sample_world 0
                        (lit ''94578'', D (jan 1), D (jan 31)) cold))))) = 2)
 \<and> (\<not> fresh 1800 0 (hourly_cache cold) (lit ''94578'', D (jan 1), D (jan 31))
    \<and> fst (hourly_cached sample_world 0 (lit ''94578'', D (jan 1), D (jan 31)) cold)
        = Inr sample_table
    \<and> hourly_cached sample_world 1799 (lit ''94578'', D (jan 1), D (jan 31))
          (snd (hourly_cached sample_world 0 (lit ''94578'', D (jan 1), D (jan 31)) cold))
        = (Inr sample_table,
           snd (hourly_cached sample_world 0 (lit ''94578'', D (jan 1), D (jan 31)) cold))
    \<and> length (calls (snd (hourly_cached sample_world 1800
                (lit ''94578'', D (jan 1), D (jan 31))
                (snd (hourly_cached sample_world 0
                        (lit ''94578'', D (jan 1), D (jan 31)) cold))))) = 2)"
proof -
  let ?kg = "(lit ''Brisbane'', lit ''Australia'', 10 :: int, lit ''pt'')"
  let ?kn = "(- 27 :: int, 153 :: int, 27 :: int)"
  let ?ks = "(lit ''94578'', D (jan 1), D (jan 31))"
  let ?sg = "snd (geocode_cached sample_world 0 ?kg cold)"
  let ?sn = "snd (nearby_cached sample_world 0 ?kn cold)"
  let ?sd = "snd (daily_cached sample_world 0 ?ks cold)"
  let ?sh = "snd (hourly_cached sample_world 0 ?ks cold)"
  have fg: "\<not> fresh 3600 0 (geo_cache cold) ?kg"
    and fn: "\<not> fresh 3600 0 (stations_cache cold) ?kn"
    and fd: "\<not> fresh 1800 0 (daily_cache cold) ?ks"
    and fh: "\<not> fresh 1800 0 (hourly_cache cold) ?ks"
    by (simp_all add: fresh_def cold_def)
  have rg: "fst (geocode_cached sample_world 0 ?kg cold) = Inr [brisbane]"
    by (simp add: geocode_cached_def cache_data_def cold_def geocode_city_country_def
        sample_world_def raise_for_status_def results_or_empty_def Let_def)
  have rn: "fst (nearby_cached sample_world 0 ?kn cold) = Inr [sample_station]"
    by (simp add: nearby_cached_def cache_data_def cold_def nearby_stations_def
        sample_world_def Let_def)
  have rd: "fst (daily_cached sample_world 0 ?ks cold) = Inr sample_table"
    by (simp add: daily_cached_def cache_data_def cold_def fetch_daily_def
        sample_world_def Let_def)
  have rh: "fst (hourly_cached sample_world 0 ?ks cold) = Inr sample_table"
    by (simp add: hourly_cached_def cache_data_def cold_def fetch_hourly_def
        sample_world_def Let_def)
  have lg: "length (calls ?sg) = 1"
    by (simp add: geocode_cached_def cache_data_def cold_def geocode_city_country_def
        sample_world_def raise_for_status_def results_or_empty_def Let_def)
  have ln: "length (calls ?sn) = 1"
    by (simp add: nearby_cached_def cache_data_def cold_def nearby_stations_def
        sample_world_def Let_def)
  have ld: "length (calls ?sd) = 1"
    by (simp add: daily_cached_def cache_data_def cold_def fetch_daily_def
        sample_world_def Let_def)
  have lh: "length (calls ?sh) = 1"
    by (simp add: hourly_cached_def cache_data_def cold_def fetch_hourly_def
        sample_world_def Let_def)
  have pg: "geocode_cached sample_world 0 ?kg cold = (Inr [brisbane], ?sg)"
    using rg by (metis prod.collapse)
  have pn: "nearby_cached sample_world 0 ?kn cold = (Inr [sample_station], ?sn)"
    using rn by (metis prod.collapse)
  have pd: "daily_cached sample_world 0 ?ks cold = (Inr sample_table, ?sd)"
    using rd by (metis prod.collapse)
  have ph: "hourly_cached sample_world 0 ?ks cold = (Inr sample_table, ?sh)"
    using rh by (metis prod.collapse)
  note m = memoized_with_expiry [where ta = 0 and tb = 3599 and tc = 3600
      and wa = sample_world and wb = sample_world and wc = sample_world
      and sg = cold and sg' = ?sg and cty = "lit ''Brisbane''" and ctry = "lit ''Australia''"
      and n = 10 and lang = "lit ''pt''" and places = "[brisbane]"
      and sn = cold and sn' = ?sn and lat = "- 27" and lon = 153 and elev = 27
      and stations = "[sample_station]"]
  note m' = memoized_with_expiry [where ta = 0 and tb = 1799 and tc = 1800
      and wa = sample_world and wb = sample_world and wc = sample_world
      and sd = cold and sd' = ?sd and sh = cold and sh' = ?sh and sid = "lit ''94578''"
      and a = "D (jan 1)" and b = "D (jan 31)" and dx = "jan 1" and dy = "jan 31"
      and df = sample_table]
  have g: "geocode_cached sample_world 3599 ?kg ?sg = (Inr [brisbane], ?sg)
      \<and> length (calls (snd (geocode_cached sample_world 3600 ?kg ?sg))) = 2"
    using m fg pg lg by simp
  have n: "nearby_cached sample_world 3599 ?kn ?sn = (Inr [sample_station], ?sn)
      \<and> length (calls (snd (nearby_cached sample_world 3600 ?kn ?sn))) = 2"
    using m fn pn ln by simp
  have d: "daily_cached sample_world 1799 ?ks ?sd = (Inr sample_table, ?sd)
      \<and> length (calls (snd (daily_cached sample_world 1800 ?ks ?sd))) = 2"
    using m' fd pd ld by simp
  have h: "hourly_cached sample_world 1799 ?ks ?sh = (Inr sample_table, ?sh)
      \<and> length (calls (snd (hourly_cached sample_world 1800 ?ks ?sh))) = 2"
    using m' fh ph lh by simp
  from fg fn fd fh rg rn rd rh g n d h show ?thesis by blast
qed

subsection \<open>The default station\<close>

lemma is_space_32: "is_space 32"
  by (simp add: is_space_def)

lemma strip_with_snoc:
  assumes "P c"
  shows "strip_with P (xs @ [c]) = strip_with P xs"
proof (cases "\<forall>x\<in>set xs. P x")
  case True
  then have a: "dropWhile P xs = []"
    by (simp add: dropWhile_eq_Nil_conv)
  have "\<forall>x\<in>set (xs @ [c]). P x"
    using True assms by simp
  then have b: "dropWhile P (xs @ [c]) = []"
    by (simp only: dropWhile_eq_Nil_conv)
  show ?thesis unfolding strip_with_def a b by simp
next
  case False
  then obtain x where "x \<in> set xs" and "\<not> P x" by blast
  then have "dropWhile P (xs @ [c]) = dropWhile P xs @ [c]"
    by (rule dropWhile_append1)
  then show ?thesis using assms by (simp add: strip_with_def)
qed

lemma split_first_station_label:
  assumes "em_dash \<notin> set (st_id r)"
  shows "split_first em_dash (station_label r) = st_id r @ [32]"
proof -
  have a: "\<And>x. x \<in> set (st_id r) \<Longrightarrow> x \<noteq> em_dash"
    using assms by auto
  obtain rest where l: "station_label r = st_id r @ (32 # em_dash # rest)"
    by (simp add: station_label_def lit_def)
  have "takeWhile (\<lambda>c. c \<noteq> em_dash) (st_id r @ (32 # em_dash # rest))
          = st_id r @ takeWhile (\<lambda>c. c \<noteq> em_dash) (32 # em_dash # rest)"
    using a by (rule takeWhile_append2)
  then show ?thesis
    by (simp add: split_first_def l em_dash_def)
qed

lemma station_id_read_back:
  "strip (split_first em_dash (station_label r)) = strip (split_first em_dash (st_id r))"
proof (cases "em_dash \<in> set (st_id r)")
  case True
  have "takeWhile (\<lambda>c. c \<noteq> em_dash) (st_id r @ rest) = takeWhile (\<lambda>c. c \<noteq> em_dash) (st_id r)"
    for rest
    using True by (intro takeWhile_append1 [of em_dash]) simp_all
  then show ?thesis
    by (simp add: split_first_def station_label_def)
next
  case False
  then have "split_first em_dash (st_id r) = st_id r"
    by (auto simp: split_first_def takeWhile_eq_all_conv)
  with False show ?thesis
    using strip_with_snoc [of is_space 32 "st_id r"]
    by (simp add: split_first_station_label strip_def is_space_32)
qed

lemma fetch_series_station:
  "grows (station_call sid) (calls s) (calls (snd (fetch_series w fm inp now sid sd ed s)))"
proof -
  have fd: "grows (station_call sid) l (snd (fetch_daily w (sid, sd, ed) l))" for l
    by (simp add: fetch_daily_def grows_snoc station_call_def)
  have fh: "grows (station_call sid) l (snd (fetch_hourly w (sid, sd, ed) l))" for l
    by (auto simp: fetch_hourly_def Let_def grows_refl station_call_def
        intro!: grows_snoc split: dateval.splits)
  have d: "grows (station_call sid) (calls s) (calls (snd (daily_cached w now (sid, sd, ed) s)))"
    using cache_data_grows [of "station_call sid" "fetch_daily w" "(sid, sd, ed)" "calls s"
        daily_ttl now "daily_cache s"] fd
    by (auto simp: daily_cached_def split: prod.splits)
  have h: "grows (station_call sid) (calls s) (calls (snd (hourly_cached w now (sid, sd, ed) s)))"
    using cache_data_grows [of "station_call sid" "fetch_hourly w" "(sid, sd, ed)" "calls s"
        hourly_ttl now "hourly_cache s"] fh
    by (auto simp: hourly_cached_def split: prod.splits)
  show ?thesis
    using d h
    by (auto simp: fetch_series_def render_calls emit_def grows_refl Let_def
        split: option.splits prod.splits sum.splits if_splits)
qed

lemma use_station_calls:
  "\<exists>more. calls (snd (use_station w fm inp now sd ed sid nm s)) = calls s @ Inventory sid # more
        \<and> list_all (station_call sid) more"
proof (cases "inventory w sid")
  case (Inl e)
  then show ?thesis by (simp add: use_station_def emit_def Let_def)
next
  case (Inr span)
  let ?s = "emit (InventoryShown (fst span) (snd span))
              ((emit (Write sid nm) s)\<lparr>calls := calls (emit (Write sid nm) s) @ [Inventory sid]\<rparr>)"
  from fetch_series_station [of sid ?s w fm inp now sd ed]
  obtain added where "calls (snd (fetch_series w fm inp now sid sd ed ?s)) = calls ?s @ added"
    and "list_all (station_call sid) added"
    by (auto simp: grows_def)
  then show ?thesis
    by (simp add: use_station_def Inr emit_def Let_def)
qed

text \<open>
  C8, as amended. Let the station lookup return a list. If it is empty, the run stops
  with the warning that no station was found. If it is not, the labels of all entries are
  offered with the first one preselected. The script reads the identifier back from the
  label chosen, as the text before the first dash U+2014 with the white space at its ends
  removed. So for an entry whose identifier that reading leaves as it is (no such dash in
  it, no white space at its ends): while the user leaves the selection alone the run goes
  on with the first entry, and after the user picks entry \<open>k\<close> it goes on with entry \<open>k\<close>.
  Going on means that the inventory is asked for that identifier and that every later
  call is a series request for it. The name shown beside it is that of the first entry
  in both cases (its identifier when the table has no name column).
\<close>

theorem first_station_is_default:
  assumes look: "nearby_cached w now (lat, lon, elev) s = (Inr st_df, s1)"
  shows "(st_df = [] \<longrightarrow>
            choose_station w fm inp now start_d end_d lat lon elev s =
              (Stopped, emit (Warning NoStation) s1))
       \<and> (\<forall>k. k < length st_df
              \<and> (station_choice inp = None \<and> k = 0 \<or> station_choice inp = Some k)
              \<and> strip (split_first em_dash (st_id (st_df ! k))) = st_id (st_df ! k) \<longrightarrow>
            choose_station w fm inp now start_d end_d lat lon elev s =
              use_station w fm inp now start_d end_d (st_id (st_df ! k))
                (case st_name (st_df ! 0) of Some n \<Rightarrow> n | None \<Rightarrow> st_id (st_df ! 0))
                (emit (Selectbox (map station_label st_df) 0) s1)
          \<and> (\<exists>more. calls (snd (choose_station w fm inp now start_d end_d lat lon elev s))
                       = calls s1 @ Inventory (st_id (st_df ! k)) # more
                   \<and> list_all (station_call (st_id (st_df ! k))) more))"
proof -
  have e: "choose_station w fm inp now start_d end_d lat lon elev s =
              (Stopped, emit (Warning NoStation) s1)" if "st_df = []"
    using that by (simp add: choose_station_def look)
  have n: "choose_station w fm inp now start_d end_d lat lon elev s =
              use_station w fm inp now start_d end_d (st_id (st_df ! k))
                (case st_name (st_df ! 0) of Some n \<Rightarrow> n | None \<Rightarrow> st_id (st_df ! 0))
                (emit (Selectbox (map station_label st_df) 0) s1)
          \<and> (\<exists>more. calls (snd (choose_station w fm inp now start_d end_d lat lon elev s))
                       = calls s1 @ Inventory (st_id (st_df ! k)) # more
                   \<and> list_all (station_call (st_id (st_df ! k))) more)"
    if a: "k < length st_df
              \<and> (station_choice inp = None \<and> k = 0 \<or> station_choice inp = Some k)
              \<and> strip (split_first em_dash (st_id (st_df ! k))) = st_id (st_df ! k)" for k
  proof -
    from a have i: "strip (split_first em_dash (station_label (st_df ! k))) = st_id (st_df ! k)"
      by (simp add: station_id_read_back)
    from a have sel: "selectbox (map station_label st_df) 0 (station_choice inp)
        = Some (station_label (st_df ! k))"
      by (auto simp: selectbox_def)
    from a obtain first rest where c: "st_df = first # rest"
      by (cases st_df) auto
    then have hd0: "st_df ! 0 = first" by simp
    have "choose_station w fm inp now start_d end_d lat lon elev s =
              (case selectbox (map station_label st_df) 0 (station_choice inp) of
                 None \<Rightarrow> (Crashed TypeError, emit (Selectbox (map station_label st_df) 0) s1)
               | Some label \<Rightarrow>
                   use_station w fm inp now start_d end_d (strip (split_first em_dash label))
                     (case st_name first of Some n \<Rightarrow> n | None \<Rightarrow> st_id first)
                     (emit (Selectbox (map station_label st_df) 0) s1))"
      by (simp add: choose_station_def look c Let_def split: option.splits)
    also have "\<dots> = use_station w fm inp now start_d end_d (st_id (st_df ! k))
                     (case st_name first of Some n \<Rightarrow> n | None \<Rightarrow> st_id first)
                     (emit (Selectbox (map station_label st_df) 0) s1)"
      by (simp only: sel option.case i)
    finally have run: "choose_station w fm inp now start_d end_d lat lon elev s =
                use_station w fm inp now start_d end_d (st_id (st_df ! k))
                  (case st_name (st_df ! 0) of Some n \<Rightarrow> n | None \<Rightarrow> st_id (st_df ! 0))
                  (emit (Selectbox (map station_label st_df) 0) s1)"
      by (simp only: hd0)
    have "\<exists>more. calls (snd (choose_station w fm inp now start_d end_d lat lon elev s))
                         = calls s1 @ Inventory (st_id (st_df ! k)) # more
                     \<and> list_all (station_call (st_id (st_df ! k))) more"
      unfolding run
      using use_station_calls [of w fm inp now start_d end_d "st_id (st_df ! k)" _
          "emit (Selectbox (map station_label st_df) 0) s1"]
      by (simp add: emit_def)
    with run show ?thesis by blast
  qed
  from e n show ?thesis by blast
qed

theorem first_station_is_default_witness:
  "fst (nearby_cached two_station_world 0 (- 27, 153, 27) cold)
     = Inr [sample_station, other_station]
   \<and> strip (split_first em_dash (st_id sample_station)) = st_id sample_station
   \<and> strip (split_first em_dash (st_id other_station)) = st_id other_station
   \<and> (\<exists>more. calls (snd (choose_station two_station_world sample_formats sample_inputs 0
                  (D (jan 1)) (D (jan 31)) (- 27) 153 27 cold))
          = calls (snd (nearby_cached two_station_world 0 (- 27, 153, 27) cold))
              @ Inventory (lit ''94578'') # more
        \<and> list_all (station_call (lit ''94578'')) more)
   \<and> (\<exists>more. calls (snd (choose_station two_station_world sample_formats
                  (sample_inputs\<lparr>station_choice := Some 1\<rparr>) 0
                  (D (jan 1)) (D (jan 31)) (- 27) 153 27 cold))
          = calls (snd (nearby_cached two_station_world 0 (- 27, 153, 27) cold))
              @ Inventory (lit ''94576'') # more
        \<and> list_all (station_call (lit ''94576'')) more)
   \<and> fst (nearby_cached twin_world 0 (- 27, 153, 27) cold) = Inr []
   \<and> choose_station twin_world sample_formats sample_inputs 0 (D (jan 1)) (D (jan 31))
        (- 27) 153 27 cold =
       (Stopped, emit (Warning NoStation) (snd (nearby_cached twin_world 0 (- 27, 153, 27) cold)))"
proof -
  let ?s1 = "snd (nearby_cached two_station_world 0 (- 27, 153, 27) cold)"
  let ?s2 = "snd (nearby_cached twin_world 0 (- 27, 153, 27) cold)"
  have r1: "fst (nearby_cached two_station_world 0 (- 27, 153, 27) cold)
      = Inr [sample_station, other_station]"
    by (simp add: nearby_cached_def cache_data_def cold_def nearby_stations_def
        two_station_world_def sample_world_def Let_def)
  have r2: "fst (nearby_cached twin_world 0 (- 27, 153, 27) cold) = Inr []"
    by (simp add: nearby_cached_def cache_data_def cold_def nearby_stations_def
        twin_world_def sample_world_def Let_def)
  have l1: "nearby_cached two_station_world 0 (- 27, 153, 27) cold
      = (Inr [sample_station, other_station], ?s1)"
    using r1 by (metis prod.collapse)
  have l2: "nearby_cached twin_world 0 (- 27, 153, 27) cold = (Inr [], ?s2)"
    using r2 by (metis prod.collapse)
  have n: "station_choice sample_inputs = None"
    by (simp add: sample_inputs_def)
  have t1: "strip (split_first em_dash (st_id sample_station)) = st_id sample_station"
    by (simp add: sample_station_def lit_def strip_def strip_with_def is_space_def
        split_first_def em_dash_def)
  have t2: "strip (split_first em_dash (st_id other_station)) = st_id other_station"
    by (simp add: other_station_def lit_def strip_def strip_with_def is_space_def
        split_first_def em_dash_def)
  have i: "st_id sample_station = lit ''94578''" "st_id other_station = lit ''94576''"
    by (simp_all add: sample_station_def other_station_def)
  have pa: "0 < length [sample_station, other_station]
      \<and> (station_choice sample_inputs = None \<and> (0::nat) = 0 \<or> station_choice sample_inputs = Some 0)
      \<and> strip (split_first em_dash (st_id ([sample_station, other_station] ! 0)))
          = st_id ([sample_station, other_station] ! 0)"
    using n t1 by simp
  have pb: "1 < length [sample_station, other_station]
      \<and> (station_choice (sample_inputs\<lparr>station_choice := Some 1\<rparr>) = None \<and> (1::nat) = 0
          \<or> station_choice (sample_inputs\<lparr>station_choice := Some 1\<rparr>) = Some 1)
      \<and> strip (split_first em_dash (st_id ([sample_station, other_station] ! 1)))
          = st_id ([sample_station, other_station] ! 1)"
    using t2 by simp
  have a: "\<exists>more. calls (snd (choose_station two_station_world sample_formats sample_inputs 0
                  (D (jan 1)) (D (jan 31)) (- 27) 153 27 cold))
          = calls ?s1 @ Inventory (lit ''94578'') # more
        \<and> list_all (station_call (lit ''94578'')) more"
    using first_station_is_default [OF l1, of sample_formats sample_inputs "D (jan 1)" "D (jan 31)",
        THEN conjunct2, rule_format, OF pa, THEN conjunct2]
    by (simp add: i)
  have b: "\<exists>more. calls (snd (choose_station two_station_world sample_formats
                  (sample_inputs\<lparr>station_choice := Some 1\<rparr>) 0
                  (D (jan 1)) (D (jan 31)) (- 27) 153 27 cold))
          = calls ?s1 @ Inventory (lit ''94576'') # more
        \<and> list_all (station_call (lit ''94576'')) more"
    using first_station_is_default [OF l1, of sample_formats "sample_inputs\<lparr>station_choice := Some 1\<rparr>"
        "D (jan 1)" "D (jan 31)", THEN conjunct2, rule_format, OF pb, THEN conjunct2]
    by (simp add: i)
  have c: "choose_station twin_world sample_formats sample_inputs 0 (D (jan 1)) (D (jan 31))
        (- 27) 153 27 cold = (Stopped, emit (Warning NoStation) ?s2)"
    using first_station_is_default [OF l2, of sample_formats sample_inputs "D (jan 1)" "D (jan 31)"] by simp
  from r1 t1 t2 a b r2 c show ?thesis by blast
qed

text \<open>
  C8 as stated fails for an identifier with a dash in it: of the first entry
  AB, U+2014, C the run keeps AB, and asks the inventory and the series for that.
  An identifier with a blank in front loses the blank.
\<close>

theorem dash_in_identifier_cuts_it:
  "st_id dash_station = lit ''AB'' @ [em_dash] @ lit ''C''
   \<and> station_choice sample_inputs = None
   \<and> strip (split_first em_dash (station_label (sample_station\<lparr>st_id := lit '' 94578''\<rparr>)))
       = lit ''94578''
   \<and> fst (script dash_world sample_formats sample_inputs 0 cold) = Stopped
   \<and> drop 2 (calls (snd (script dash_world sample_formats sample_inputs 0 cold)))
       = [Inventory (lit ''AB''), Daily (lit ''AB'') (D (jan 1)) (D (jan 31))]"
  by (simp add: run_defs dash_world_def dash_station_def)

subsection \<open>The selected place\<close>

lemma index_of_first:
  "i < length xs \<Longrightarrow>
     \<exists>j\<le>i. index_of xs (xs ! i) = Some j \<and> xs ! j = xs ! i \<and> (\<forall>k<j. xs ! k \<noteq> xs ! i)"
proof (induction xs arbitrary: i)
  case Nil
  then show ?case by simp
next
  case (Cons x xs)
  show ?case
  proof (cases "x = (x # xs) ! i")
    case True
    then show ?thesis by auto
  next
    case False
    then obtain i' where i: "i = Suc i'" by (cases i) auto
    with Cons.prems have "i' < length xs" by simp
    from Cons.IH [OF this] obtain j where
      j: "j \<le> i'" "index_of xs (xs ! i') = Some j" "xs ! j = xs ! i'" "\<forall>k<j. xs ! k \<noteq> xs ! i'"
      by blast
    have "\<forall>k<Suc j. (x # xs) ! k \<noteq> (x # xs) ! i"
    proof (intro allI impI)
      fix k assume "k < Suc j"
      then show "(x # xs) ! k \<noteq> (x # xs) ! i"
        using False j(4) i by (cases k) auto
    qed
    with False i j show ?thesis
      by (intro exI [of _ "Suc j"]) auto
  qed
qed

lemma last_sep_unique:
  assumes "c \<notin> set a" and "c \<notin> set b" and "x @ c # a = y @ c # b"
  shows "x = y \<and> a = b"
proof -
  have "takeWhile (\<lambda>z. z \<noteq> c) (rev a @ c # rev x) = rev a"
    using assms(1) by (auto simp: takeWhile_tail)
  moreover have "takeWhile (\<lambda>z. z \<noteq> c) (rev b @ c # rev y) = rev b"
    using assms(2) by (auto simp: takeWhile_tail)
  moreover have "rev a @ c # rev x = rev b @ c # rev y"
    using arg_cong [OF assms(3), of rev] by simp
  ultimately have "a = b" by simp
  with assms(3) show ?thesis by simp
qed

lemma get_shown_no_eq:
  assumes "\<And>x. 61 \<notin> set (sh x)"
  shows "61 \<notin> set (get_shown sh f)"
  using assms by (cases f) (simp_all add: get_shown_def lit_def)

lemma place_label_coords:
  assumes noeq: "\<And>x. 61 \<notin> set (str_f fm x)"
    and eq: "place_label fm p = place_label fm q"
  shows "get_shown (str_f fm) (pl_latitude p) = get_shown (str_f fm) (pl_latitude q)
       \<and> get_shown (str_f fm) (pl_longitude p) = get_shown (str_f fm) (pl_longitude q)"
proof -
  define A where "A p = get_or_empty (pl_name p) @ lit '' '' @ [em_dash] @ lit '' ''
       @ get_or_empty (pl_admin1 p) @ lit '' '' @ get_or_empty (pl_admin2 p) @ lit '' (''
       @ get_or_empty (pl_country p) @ lit '') [lat''" for p :: "'a place"
  define La where "La p = get_shown (str_f fm) (pl_latitude p)" for p :: "'a place"
  define Lo where "Lo p = get_shown (str_f fm) (pl_longitude p)" for p :: "'a place"
  have shape: "place_label fm p = (A p @ 61 # La p @ lit '', lon'') @ 61 # (Lo p @ [93])" for p
    by (simp add: place_label_def A_def La_def Lo_def lit_def)
  have n1: "61 \<notin> set (Lo p @ [93])" for p
    using get_shown_no_eq [of "str_f fm", OF noeq] by (simp add: Lo_def)
  have n2: "61 \<notin> set (La p @ lit '', lon'')" for p
    using get_shown_no_eq [of "str_f fm", OF noeq] by (simp add: La_def lit_def)
  from eq have "(A p @ 61 # La p @ lit '', lon'') @ 61 # (Lo p @ [93])
      = (A q @ 61 # La q @ lit '', lon'') @ 61 # (Lo q @ [93])"
    by (simp only: shape)
  from last_sep_unique [OF n1 n1 this]
  have a: "A p @ 61 # La p @ lit '', lon'' = A q @ 61 # La q @ lit '', lon''"
    and b: "Lo p = Lo q" by simp_all
  from last_sep_unique [OF n2 n2 a] have "La p = La q" by simp
  with b show ?thesis by (simp add: La_def Lo_def)
qed

lemma get_shown_Val:
  assumes "inj sh" and "\<And>x. sh x \<noteq> lit ''None''"
    and "get_shown sh f = get_shown sh (Val x)"
  shows "f = Val x"
  using assms by (cases f) (auto simp: get_shown_def dest: injD)

text \<open>
  What the script passes on. Let the user pick candidate \<open>i\<close>, which carries a latitude
  and a longitude. The script finds the place by the label picked, so it uses the first
  candidate \<open>j\<close> whose label equals that of candidate \<open>i\<close>; \<open>j\<close> is \<open>i\<close> whenever no earlier
  candidate prints the same label. The coordinates handed on are those of candidate \<open>i\<close>
  (numbers that print alike are equal, and a printed number holds no equals sign and is
  not the word None); the elevation handed on is that of candidate \<open>j\<close>, 0 when missing
  or null.
\<close>

lemma selected_place_is_passed_on:
  assumes i: "i < length places" and choice: "place_choice inp = Some i"
    and lat: "pl_latitude (places ! i) = Val lat" and lon: "pl_longitude (places ! i) = Val lon"
    and inj: "inj (str_f fm)" and noeq: "\<forall>x. 61 \<notin> set (str_f fm x)"
    and nonone: "\<forall>x. str_f fm x \<noteq> lit ''None''"
  shows "\<exists>j\<le>i. index_of (map (place_label fm) places) (place_label fm (places ! i)) = Some j
      \<and> ((\<forall>k<i. place_label fm (places ! k) \<noteq> place_label fm (places ! i)) \<longrightarrow> j = i)
      \<and> choose_place w fm inp now start_d end_d places s =
          choose_station w fm inp now start_d end_d lat lon
            (float_or_zero (pl_elevation (places ! j)))
            (emit (Json (places ! j) lat lon (float_or_zero (pl_elevation (places ! j))))
               (emit (Selectbox (map (place_label fm) places) 0) s))
      \<and> ((pl_elevation (places ! j) = Missing \<or> pl_elevation (places ! j) = Null) \<longrightarrow>
            float_or_zero (pl_elevation (places ! j)) = (0 :: 'f :: zero))"
proof -
  let ?labels = "map (place_label fm) places"
  from i have il: "i < length ?labels" by simp
  from index_of_first [OF il] obtain j where
    j: "j \<le> i" "index_of ?labels (?labels ! i) = Some j" "?labels ! j = ?labels ! i"
      "\<forall>k<j. ?labels ! k \<noteq> ?labels ! i"
    by blast
  from j(1) i have jl: "j < length places" by simp
  have li: "?labels ! i = place_label fm (places ! i)" using i by simp
  have lj: "?labels ! j = place_label fm (places ! j)" using jl by simp
  from j(3) have same: "place_label fm (places ! j) = place_label fm (places ! i)"
    by (simp only: li lj)
  have first: "(\<forall>k<i. place_label fm (places ! k) \<noteq> place_label fm (places ! i)) \<longrightarrow> j = i"
  proof (cases "j = i")
    case True
    then show ?thesis by simp
  next
    case False
    with j(1) have "j < i" by simp
    with same show ?thesis by blast
  qed
  from place_label_coords [of fm, OF _ same] noeq
  have sh: "get_shown (str_f fm) (pl_latitude (places ! j)) = get_shown (str_f fm) (Val lat)"
    "get_shown (str_f fm) (pl_longitude (places ! j)) = get_shown (str_f fm) (Val lon)"
    by (simp_all add: lat lon)
  have latj: "pl_latitude (places ! j) = Val lat"
    using get_shown_Val [OF inj _ sh(1)] nonone by blast
  have lonj: "pl_longitude (places ! j) = Val lon"
    using get_shown_Val [OF inj _ sh(2)] nonone by blast
  have sel: "selectbox ?labels 0 (place_choice inp) = Some (place_label fm (places ! i))"
    using i by (simp add: selectbox_def choice)
  have run: "choose_place w fm inp now start_d end_d places s =
          choose_station w fm inp now start_d end_d lat lon
            (float_or_zero (pl_elevation (places ! j)))
            (emit (Json (places ! j) lat lon (float_or_zero (pl_elevation (places ! j))))
               (emit (Selectbox (map (place_label fm) places) 0) s))"
    using j(2) by (simp add: choose_place_def sel li latj lonj float_item_def Let_def)
  have zero: "(pl_elevation (places ! j) = Missing \<or> pl_elevation (places ! j) = Null) \<longrightarrow>
            float_or_zero (pl_elevation (places ! j)) = (0 :: 'f)"
    by (auto simp: float_or_zero_def)
  from j(1) j(2) first run zero li show ?thesis by auto
qed

text \<open>
  C5. For a candidate whose label no earlier candidate shares, the place picked is the
  place passed on. Where two candidates print the same label the code misses the pick:
  with the second of them picked, whose elevation field is missing, line 116 finds the
  first by its label, and the station lookup is called with the elevation 27 of the
  first, not with 0.
\<close>

theorem twin_label_takes_first_elevation:
  "place_choice (sample_inputs\<lparr>place_choice := Some 1\<rparr>) = Some 1
   \<and> pl_latitude ([brisbane, brisbane_twin] ! 1) = Val (- 27)
   \<and> pl_longitude ([brisbane, brisbane_twin] ! 1) = Val 153
   \<and> pl_elevation ([brisbane, brisbane_twin] ! 1) = Missing
   \<and> tl (calls (snd (script twin_world sample_formats
                        (sample_inputs\<lparr>place_choice := Some 1\<rparr>) 0 cold)))
       = [Nearby (- 27) 153 27 10]"
  by (simp add: script_def sample_inputs_def normalize_period_def jan_def date_gt_def
      geocode_def geocode_cached_def cache_data_def cold_def geocode_city_country_def
      raise_for_status_def results_or_empty_def choose_place_def selectbox_def
      place_label_def get_or_empty_def get_shown_def sample_formats_def str_int_def
      str_nat.simps lit_def brisbane_def brisbane_twin_def float_item_def float_or_zero_def
      choose_station_def nearby_cached_def nearby_stations_def emit_def twin_world_def
      sample_world_def Let_def)

subsection \<open>The exported file\<close>

















lemma encodable_append: "encodable (a @ b) \<longleftrightarrow> encodable a \<and> encodable b"
  by (simp add: encodable_def)

lemma utf8_char_total:
  "c < 55296 \<or> (57344 \<le> c \<and> c < 1114112) \<Longrightarrow> \<exists>bs. utf8_char c = Inr bs"
  by (auto simp: utf8_char_def)

lemma encode_utf8_total: "encodable s \<Longrightarrow> \<exists>bs. encode_utf8 s = Inr bs"
proof (induction s)
  case Nil
  then show ?case by simp
next
  case (Cons c s)
  then have c: "c < 55296 \<or> (57344 \<le> c \<and> c < 1114112)" and s: "encodable s"
    by (simp_all add: encodable_def)
  from utf8_char_total [OF c] obtain b1 where b1: "utf8_char c = Inr b1" ..
  from Cons.IH [OF s] obtain b2 where b2: "encode_utf8 s = Inr b2" ..
  show ?case by (simp add: b1 b2)
qed

lemma encodable_csv_quote: "encodable f \<Longrightarrow> encodable (csv_quote f)"
proof -
  assume f: "encodable f"
  have "encodable (concat (map (\<lambda>c. if c = 34 then [34, 34] else [c]) g))" if "encodable g" for g
    using that by (induction g) (simp_all add: encodable_def)
  with f show ?thesis
    by (simp add: csv_quote_def encodable_def)
qed

lemma encodable_join: "list_all encodable xs \<Longrightarrow> encodable (join [44] xs)"
  by (induction "[44::nat]" xs rule: join.induct) (simp_all add: encodable_def)

lemma encodable_csv_line: "list_all encodable fs \<Longrightarrow> encodable (csv_line fs)"
proof -
  assume "list_all encodable fs"
  then have "list_all encodable (map csv_quote fs)"
    by (simp add: list_all_iff encodable_csv_quote)
  then have "encodable (join [44] (map csv_quote fs))"
    by (rule encodable_join)
  then show ?thesis
    by (simp add: csv_line_def encodable_def)
qed

lemma encodable_concat: "list_all encodable xs \<Longrightarrow> encodable (concat xs)"
  by (induction xs) (simp_all add: encodable_append, simp add: encodable_def)

lemma export_total:
  assumes nt: "time_col \<notin> set (map fst (columns df))"
    and names: "list_all encodable (map fst (columns df))"
    and times: "\<forall>t. encodable (str_t fm t)" and vals: "\<forall>v. encodable (str_v fm v)"
  shows "\<exists>bytes. df_to_csv_bytes fm df = Inr bytes"
proof -
  define t where "t = \<lparr>tcolumns = (time_col, False) # columns df,
                trows = map (\<lambda>(t, vs). TimeCell t # map ValCell vs) (rows df)\<rparr>"
  have r: "reset_index df = Inr t"
    using nt by (simp add: reset_index_def t_def)
  have tc: "encodable time_col"
    by (simp add: time_col_def lit_def encodable_def)
  have cell: "encodable (str_cell fm c)" for c
    using times vals by (cases c) (simp_all add: str_cell_def)
  have "list_all (list_all encodable) (csv_records fm t)"
    using names tc cell by (simp add: csv_records_def t_def list_all_iff)
  then have "list_all encodable (map csv_line (csv_records fm t))"
    by (simp add: list_all_iff encodable_csv_line)
  then have "encodable (to_csv fm t)"
    unfolding to_csv_def by (rule encodable_concat)
  from encode_utf8_total [OF this] show ?thesis
    by (simp add: df_to_csv_bytes_def r)
qed











subsection \<open>Preview and charts\<close>

lemma numeric_cols_reset:
  assumes "reset_index df = Inr df_plot"
  shows "numeric_cols df_plot = map fst (filter snd (columns df))"
proof -
  from assms have nt: "time_col \<notin> set (map fst (columns df))"
    and t: "tcolumns df_plot = (time_col, False) # columns df"
    by (auto simp: reset_index_def split: if_splits)
  have "filter (\<lambda>(c, numeric). c \<noteq> time_col \<and> numeric) (columns df) = filter snd (columns df)"
    using nt by (intro filter_cong) (auto simp: image_iff)
  then show ?thesis
    by (simp add: numeric_cols_def t)
qed

lemma default_selection_alt:
  "default_selection ncols =
     (if set preferred_cols \<inter> set ncols = {} then take 2 ncols
      else filter (\<lambda>c. c \<in> set ncols) preferred_cols)"
proof -
  have "set (default_cols ncols) = set preferred_cols \<inter> set ncols"
    by (auto simp: default_cols_def)
  then have "default_cols ncols = [] \<longleftrightarrow> set preferred_cols \<inter> set ncols = {}"
    by (metis set_empty)
  then show ?thesis
    by (simp add: default_selection_def default_cols_def)
qed

text \<open>
  C9, as amended. For every table none of whose observation columns is itself named
  \<^verbatim>\<open>time\<close>, the first two things rendered are the preview, which holds the first 50 rows
  of the table, and the multiselect. Its options are the numeric columns; its default is
  the preferred names temp, tmin, tmax, prcp, wspd, pres, rhum that are among them, and
  the first two numeric columns when none is. The line chart is shown exactly when the
  selection is not empty, and the bar chart of prcp exactly when prcp is selected.
\<close>

theorem preview_and_default_columns:
  assumes "time_col \<notin> set (map fst (columns df))"
  shows "let ncols = map fst (filter snd (columns df));
             dflt = (if set preferred_cols \<inter> set ncols = {} then take 2 ncols
                     else filter (\<lambda>c. c \<in> set ncols) preferred_cols);
             sel = (case cols_choice inp of None \<Rightarrow> dflt
                    | Some cs \<Rightarrow> filter (\<lambda>c. c \<in> set ncols) cs);
             shown = drop (length (ui s)) (ui (snd (render fm inp sid start_d end_d df s)))
         in take 2 shown = [Dataframe (df\<lparr>rows := take 50 (rows df)\<rparr>), Multiselect ncols dflt]
          \<and> set (filter (\<lambda>c. c \<in> set ncols) preferred_cols) = set preferred_cols \<inter> set ncols
          \<and> (LineChart time_col sel \<in> set shown \<longleftrightarrow> sel \<noteq> [])
          \<and> (BarChart time_col (lit ''prcp'') \<in> set shown \<longleftrightarrow> lit ''prcp'' \<in> set sel)"
proof -
  define df_plot where "df_plot = \<lparr>tcolumns = (time_col, False) # columns df,
                trows = map (\<lambda>(t, vs). TimeCell t # map ValCell vs) (rows df)\<rparr>"
  have r: "reset_index df = Inr df_plot"
    using assms by (simp add: reset_index_def df_plot_def)
  have u: "ui (snd (render fm inp sid start_d end_d df s)) =
      ui s @ [Dataframe (df\<lparr>rows := take 50 (rows df)\<rparr>),
              Multiselect (numeric_cols df_plot) (default_selection (numeric_cols df_plot))]
        @ (let sel = multiselect (numeric_cols df_plot) (default_selection (numeric_cols df_plot))
                       (cols_choice inp)
           in if sel = [] then [Info SelectVariable]
              else LineChart time_col sel #
                   (if lit ''prcp'' \<in> set sel then [BarChart time_col (lit ''prcp'')] else []))
        @ (case df_to_csv_bytes fm df of
             Inl e \<Rightarrow> []
           | Inr data \<Rightarrow> [DownloadButton data
                (file_name (country inp) (city inp) sid start_d end_d) (lit ''text/csv'')])"
    by (simp add: render_def r charts_def emit_def head_def Let_def split: sum.splits)
  show ?thesis
    unfolding u Let_def
    by (auto simp: numeric_cols_reset [OF r] default_selection_alt multiselect_def
        split: sum.splits option.splits)
qed

theorem preview_and_default_columns_witness:
  "time_col \<notin> set (map fst (columns long_table))
   \<and> time_col \<notin> set (map fst (columns other_table))
   \<and> length (rows long_table) = 60
   \<and> take 2 (ui (snd (render sample_formats sample_inputs (lit ''94578'') (D (jan 1)) (D (jan 31))
                         long_table cold)))
       = [Dataframe (long_table\<lparr>rows := take 50 (rows long_table)\<rparr>),
          Multiselect [lit ''temp'', lit ''prcp''] [lit ''temp'', lit ''prcp'']]
   \<and> BarChart time_col (lit ''prcp'')
       \<in> set (ui (snd (render sample_formats sample_inputs (lit ''94578'') (D (jan 1)) (D (jan 31))
                         long_table cold)))
   \<and> BarChart time_col (lit ''prcp'')
       \<notin> set (ui (snd (render sample_formats (sample_inputs\<lparr>cols_choice := Some [lit ''temp'']\<rparr>)
                         (lit ''94578'') (D (jan 1)) (D (jan 31)) long_table cold)))
   \<and> take 2 (ui (snd (render sample_formats sample_inputs (lit ''94578'') (D (jan 1)) (D (jan 31))
                         other_table cold)))
       = [Dataframe (other_table\<lparr>rows := take 50 (rows other_table)\<rparr>),
          Multiselect [lit ''snow'', lit ''wdir'', lit ''tsun''] [lit ''snow'', lit ''wdir'']]"
proof -
  have a: "time_col \<notin> set (map fst (columns long_table))"
    by (simp add: long_table_def time_col_def lit_def)
  have b: "time_col \<notin> set (map fst (columns other_table))"
    by (simp add: other_table_def time_col_def lit_def)
  have l: "length (rows long_table) = 60"
    by (simp add: long_table_def)
  have nl: "map fst (filter snd (columns long_table)) = [lit ''temp'', lit ''prcp'']"
    by (simp add: long_table_def)
  have no: "map fst (filter snd (columns other_table)) = [lit ''snow'', lit ''wdir'', lit ''tsun'']"
    by (simp add: other_table_def)
  have u: "ui cold = []" "cols_choice sample_inputs = None"
    by (simp_all add: cold_def sample_inputs_def)
  from preview_and_default_columns [OF a, of sample_inputs cold sample_formats "lit ''94578''" "D (jan 1)" "D (jan 31)"]
  have x: "take 2 (ui (snd (render sample_formats sample_inputs (lit ''94578'') (D (jan 1))
                         (D (jan 31)) long_table cold)))
       = [Dataframe (long_table\<lparr>rows := take 50 (rows long_table)\<rparr>),
          Multiselect [lit ''temp'', lit ''prcp''] [lit ''temp'', lit ''prcp'']]
     \<and> BarChart time_col (lit ''prcp'')
       \<in> set (ui (snd (render sample_formats sample_inputs (lit ''94578'') (D (jan 1)) (D (jan 31))
                         long_table cold)))"
    by (simp add: Let_def nl preferred_cols_def lit_def u)
  from preview_and_default_columns [OF a, of "sample_inputs\<lparr>cols_choice := Some [lit ''temp'']\<rparr>" cold sample_formats
      "lit ''94578''" "D (jan 1)" "D (jan 31)"]
  have y: "BarChart time_col (lit ''prcp'')
       \<notin> set (ui (snd (render sample_formats (sample_inputs\<lparr>cols_choice := Some [lit ''temp'']\<rparr>)
                         (lit ''94578'') (D (jan 1)) (D (jan 31)) long_table cold)))"
    by (simp add: Let_def nl preferred_cols_def lit_def u)
  from preview_and_default_columns [OF b, of sample_inputs cold sample_formats "lit ''94578''" "D (jan 1)" "D (jan 31)"]
  have z: "take 2 (ui (snd (render sample_formats sample_inputs (lit ''94578'') (D (jan 1))
                         (D (jan 31)) other_table cold)))
       = [Dataframe (other_table\<lparr>rows := take 50 (rows other_table)\<rparr>),
          Multiselect [lit ''snow'', lit ''wdir'', lit ''tsun''] [lit ''snow'', lit ''wdir'']]"
    by (simp add: Let_def no preferred_cols_def lit_def u)
  from a b l x y z show ?thesis by blast
qed

text \<open>
  C9 as stated fails for a table with an observation column that is itself named
  \<^verbatim>\<open>time\<close>: line 194 raises after the preview, so neither the multiselect nor a chart
  is shown, although prcp is a numeric column.
\<close>

theorem time_column_stops_rendering:
  "\<not> df_empty clash_table
   \<and> fst (render sample_formats sample_inputs (lit ''94578'') (D (jan 1)) (D (jan 31))
            clash_table cold) = Crashed ValueError
   \<and> ui (snd (render sample_formats sample_inputs (lit ''94578'') (D (jan 1)) (D (jan 31))
            clash_table cold)) = [Dataframe clash_table]"
  by (simp add: df_empty_def clash_table_def render_def reset_index_def time_col_def head_def
      emit_def cold_def Let_def)

end
